theory Spec2Isabelle
  imports Complex_Main "HOL-Library.AList"
begin

section \<open>Python values, errors and floats\<close>

text \<open>
  Every \<^verbatim>\<open>raise\<close> and every failing \<^verbatim>\<open>assert\<close> of the source is a value
  of type \<open>error\<close>; a function that can raise returns \<open>error + 'a\<close>.
  \<open>ExternalError\<close> stands for any exception thrown inside a collaborator that is not
  part of the modelled code (model construction, training, prediction).
\<close>

datatype error =
    AssertionError | ValueError | TypeError | AttributeError | KeyError | IndexError
  | OverflowError | ExternalError

text \<open>
  A metric value is a Python float: either a finite number or one of the three
  non-finite values. The one operation of the source on metric values,
  \<^verbatim>\<open>1.0 - x\<close>, is done in \<open>real\<close>; its rounding is not modelled.
\<close>

datatype pyfloat = Finite real | PosInf | NegInf | NaN

text \<open>\<^verbatim>\<open>math.isfinite\<close>.\<close>

fun isfinite :: "pyfloat \<Rightarrow> bool" where
  "isfinite (Finite _) = True"
| "isfinite PosInf = False"
| "isfinite NegInf = False"
| "isfinite NaN = False"

text \<open>\<^verbatim>\<open>numpy.isnan\<close>, as used by \<^verbatim>\<open>DataFrame.dropna\<close>.\<close>

fun isnan :: "pyfloat \<Rightarrow> bool" where
  "isnan NaN = True"
| "isnan _ = False"

text \<open>\<^verbatim>\<open>1.0 - x\<close> on floats.\<close>

fun one_minus :: "pyfloat \<Rightarrow> pyfloat" where
  "one_minus (Finite r) = Finite (1 - r)"
| "one_minus PosInf = NegInf"
| "one_minus NegInf = PosInf"
| "one_minus NaN = NaN"

text \<open>IEEE comparisons: every comparison with NaN is false.\<close>

fun float_less :: "pyfloat \<Rightarrow> pyfloat \<Rightarrow> bool" where
  "float_less NaN _ = False"
| "float_less _ NaN = False"
| "float_less (Finite a) (Finite b) = (a < b)"
| "float_less (Finite _) PosInf = True"
| "float_less (Finite _) NegInf = False"
| "float_less PosInf _ = False"
| "float_less NegInf NegInf = False"
| "float_less NegInf _ = True"

definition float_greater :: "pyfloat \<Rightarrow> pyfloat \<Rightarrow> bool" where
  "float_greater a b = float_less b a"

text \<open>Plain Python values: elements of default points, categories and serialized dictionaries.\<close>

datatype pyval =
    VNone | VInt int | VFloat real | VStr string | VList "pyval list"
  | VDict "(string \<times> pyval) list"

text \<open>A keyword dictionary; \<^verbatim>\<open>d.get(k, default)\<close>.\<close>

type_synonym config = "(string \<times> pyval) list"

definition dict_get :: "(string \<times> 'v) list \<Rightarrow> string \<Rightarrow> 'v \<Rightarrow> 'v" where
  "dict_get d k dflt = (case map_of d k of None \<Rightarrow> dflt | Some v \<Rightarrow> v)"

text \<open>
  \<^verbatim>\<open>d.update(u)\<close> on dictionaries, and a dictionary filled by assigning the
  entries of \<open>u\<close> one after the other: a key that is present keeps its place and
  takes the new value, a new key goes to the end.
\<close>

definition dict_update :: "(string \<times> 'v) list \<Rightarrow> (string \<times> 'v) list \<Rightarrow> (string \<times> 'v) list" where
  "dict_update d u = fold (\<lambda>(k, v) acc. AList.update k v acc) u d"

text \<open>\<^verbatim>\<open>str(n)\<close> for a non-negative integer, as used by the f-strings of the source.\<close>

definition digit :: "nat \<Rightarrow> char" where
  "digit d = ''0123456789'' ! d"

function str_nat :: "nat \<Rightarrow> string" where
  "str_nat n = (if n < 10 then [digit n] else str_nat (n div 10) @ [digit (n mod 10)])"
  by pat_completeness auto
termination
  by (relation "measure id") auto

declare str_nat.simps [simp del]

text \<open>\<^verbatim>\<open>s.startswith(p)\<close>.\<close>

fun startswith :: "string \<Rightarrow> string \<Rightarrow> bool" where
  "startswith s [] = True"
| "startswith [] (p # ps) = False"
| "startswith (c # cs) (p # ps) = (c = p \<and> startswith cs ps)"

section \<open>The search space: \<^verbatim>\<open>hyperopt/_space.py\<close>\<close>

text \<open>
  The classes \<^verbatim>\<open>Real\<close>, \<^verbatim>\<open>Integer\<close> and \<^verbatim>\<open>Categorical\<close> extend the
  classes of the same name of the scikit-optimize library. The model covers the
  configuration in which that library is importable. What the libraries do is outside
  the source and is a parameter of the model, the record \<open>backend\<close>:
  \<^item> the version string of scikit-optimize, which \<^verbatim>\<open>check_prior\<close> reads;
  \<^item> whether the library's constructor accepts its arguments (\<open>Real_base_ok\<close>,
    \<open>Integer_base_ok\<close>); when it does it stores \<^verbatim>\<open>low\<close>, \<^verbatim>\<open>high\<close>,
    \<^verbatim>\<open>prior\<close> (default \<^verbatim>\<open>'uniform'\<close>) and \<^verbatim>\<open>name\<close>, which this source reads
    back;
  \<^item> the entries that the library's constructor leaves in the instance dictionary,
    from the bounds, the prior and the name (for a \<^verbatim>\<open>Categorical\<close>: the categories,
    the prior and the name), in the order in which it sets them, without the callable
    ones and each value as \<^verbatim>\<open>Jsonize\<close> renders it (\<open>Real_base_dict\<close>,
    \<open>Integer_base_dict\<close>, \<open>Categorical_base_dict\<close>);
  \<^item> the rounding of double-precision arithmetic (\<open>fl\<close>), the result of casting
    a double outside the 32-bit range to a 32-bit integer (\<open>int32_overflow\<close>) and
    the result of storing a Python integer outside that range in an array of 32-bit
    integers (\<open>int32_of_python\<close>), all three used by the numerical library.
\<close>

record backend =
  skopt_version :: string
  Real_base_ok :: "real \<Rightarrow> real \<Rightarrow> string \<Rightarrow> bool"
  Integer_base_ok :: "int \<Rightarrow> int \<Rightarrow> string \<Rightarrow> bool"
  Real_base_dict :: "real \<Rightarrow> real \<Rightarrow> string \<Rightarrow> string \<Rightarrow> config"
  Integer_base_dict :: "int \<Rightarrow> int \<Rightarrow> string \<Rightarrow> string \<Rightarrow> config"
  Categorical_base_dict :: "pyval list \<Rightarrow> real list option \<Rightarrow> string option \<Rightarrow> config"
  fl :: "real \<Rightarrow> real"
  int32_overflow :: "real \<Rightarrow> int"
  int32_of_python :: "int \<Rightarrow> error + int"

text \<open>
  The class attributes \<^verbatim>\<open>Real.counter\<close> and \<^verbatim>\<open>Integer.counter\<close>, both
  initialised to 0 in the class bodies. They are process-wide state, so the
  constructors take them and return them.
\<close>

record classes =
  Real_counter :: nat
  Integer_counter :: nat

definition initial_classes :: classes where
  "initial_classes = \<lparr>Real_counter = 0, Integer_counter = 0\<rparr>"

text \<open>
  The attributes of a \<^verbatim>\<open>Real\<close> that this source sets or reads, in the order in
  which they are set; \<open>grid\<close> is the attribute \<^verbatim>\<open>_grid\<close> behind the property
  \<^verbatim>\<open>grid\<close>.
\<close>

record Real =
  counter :: nat
  num_samples :: "int option"
  step :: "real option"
  low :: real
  high :: real
  prior :: string
  name :: string
  grid :: "real list option"

record Integer =
  counter :: nat
  num_samples :: "int option"
  step :: "int option"
  low :: int
  high :: int
  prior :: string
  name :: string
  grid :: "int list option"

text \<open>
  \<^verbatim>\<open>Categorical\<close> adds no constructor: its attributes are those the library sets.
\<close>

record Categorical =
  categories :: "pyval list"
  prior :: "real list option"
  name :: "string option"

text \<open>The arguments of the two constructors; \<open>None\<close> is an argument left out.\<close>

record Real_args =
  a_low :: "real option"
  a_high :: "real option"
  a_num_samples :: "int option"
  a_step :: "real option"
  a_grid :: "real list option"
  a_name :: "string option"
  a_prior :: "string option"

record Integer_args =
  i_low :: "int option"
  i_high :: "int option"
  i_num_samples :: "int option"
  i_step :: "int option"
  i_grid :: "int list option"
  i_name :: "string option"
  i_prior :: "string option"

text \<open>
  \<^verbatim>\<open>check_prior\<close>: the prior \<^verbatim>\<open>'log'\<close> is renamed for version 0.9.0 of the library;
  the keyword dictionary is otherwise returned as it came.
\<close>

definition check_prior :: "backend \<Rightarrow> string option \<Rightarrow> string option" where
  "check_prior be kw_prior =
     (let prior = (case kw_prior of None \<Rightarrow> ''uniform'' | Some p \<Rightarrow> p)
      in if prior = ''log'' \<and> skopt_version be = ''0.9.0'' then Some ''log-uniform''
         else kw_prior)"

text \<open>The library's default for a prior that was not passed.\<close>

definition base_prior :: "string option \<Rightarrow> string" where
  "base_prior kw_prior = (case kw_prior of None \<Rightarrow> ''uniform'' | Some p \<Rightarrow> p)"

text \<open>
  \<^verbatim>\<open>np.min(grid)\<close> and \<^verbatim>\<open>np.max(grid)\<close>; both raise ValueError on an empty
  sequence.
\<close>

definition np_min :: "('a::linorder) list \<Rightarrow> error + 'a" where
  "np_min g = (case g of [] \<Rightarrow> Inl ValueError | x # xs \<Rightarrow> Inr (fold min xs x))"

definition np_max :: "('a::linorder) list \<Rightarrow> error + 'a" where
  "np_max g = (case g of [] \<Rightarrow> Inl ValueError | x # xs \<Rightarrow> Inr (fold max xs x))"

text \<open>
  Double-precision arithmetic of the numerical library. An arithmetic operation on
  doubles gives the exact result rounded to a double; the rounding \<open>fl\<close> is a
  parameter of the model (field of \<open>backend\<close>), applied wherever the library
  computes in doubles. The 32-bit integers of \<^verbatim>\<open>dtype=np.int32\<close> are integers with
  the range written out.
\<close>

definition in_int32 :: "int \<Rightarrow> bool" where
  "in_int32 x = (- (2 ^ 31) \<le> x \<and> x < 2 ^ 31)"

text \<open>Storing the result of 64-bit integer arithmetic in a 32-bit integer keeps the low 32 bits.\<close>

definition wrap_int32 :: "int \<Rightarrow> int" where
  "wrap_int32 x = (x + 2 ^ 31) mod 2 ^ 32 - 2 ^ 31"

text \<open>
  Rounding a double down and casting it to \<^verbatim>\<open>np.int32\<close>. Within the 32-bit range
  the result is the floor. Outside it the cast has no defined result; what the
  platform gives is the parameter \<open>int32_overflow\<close> (on x86, \<open>-2\<^sup>3\<^sup>1\<close>).
\<close>

definition floor_int32 :: "backend \<Rightarrow> real \<Rightarrow> int" where
  "floor_int32 be y =
     (if in_int32 \<lfloor>y\<rfloor> then \<lfloor>y\<rfloor> else int32_overflow be (real_of_int \<lfloor>y\<rfloor>))"

text \<open>
  Storing a Python integer in an array of 32-bit integers. A value outside the range
  raises OverflowError or keeps its low 32 bits, depending on the version of the
  library; this is the parameter \<open>int32_of_python\<close>.
\<close>

definition store_int32 :: "backend \<Rightarrow> int \<Rightarrow> error + int" where
  "store_int32 be x = (if in_int32 x then Inr x else int32_of_python be x)"

text \<open>
  \<^verbatim>\<open>np.linspace(start, stop, num)\<close>. A negative \<open>num\<close> raises ValueError.
  Otherwise the library converts the two ends to doubles, computes
  \<^verbatim>\<open>delta = stop - start\<close>, and with \<^verbatim>\<open>div = num - 1\<close>:
  when \<^verbatim>\<open>div > 0\<close>, \<^verbatim>\<open>step = delta / div\<close> and the points \<^verbatim>\<open>i * step + start\<close>
  (or \<^verbatim>\<open>(i / div) * delta + start\<close> when the step is zero); when \<^verbatim>\<open>div = 0\<close>,
  the points \<^verbatim>\<open>i * delta + start\<close>. With more than one point the last is then
  overwritten with \<^verbatim>\<open>stop\<close>.
\<close>

definition linspace_values :: "backend \<Rightarrow> real \<Rightarrow> real \<Rightarrow> nat \<Rightarrow> real list" where
  "linspace_values be start stop n =
     (let a = fl be start; b = fl be stop; delta = fl be (b - a); d = real (n - 1);
          ys = (if 1 < n then
                  (let st = fl be (delta / d)
                   in if st = 0
                      then map (\<lambda>i. fl be (fl be (fl be (real i / d) * delta) + a)) [0..<n]
                      else map (\<lambda>i. fl be (fl be (real i * st) + a)) [0..<n])
                else map (\<lambda>i. fl be (fl be (real i * delta) + a)) [0..<n])
      in if 1 < n then butlast ys @ [b] else ys)"

definition linspace :: "backend \<Rightarrow> real \<Rightarrow> real \<Rightarrow> int \<Rightarrow> error + real list" where
  "linspace be start stop num =
     (if num < 0 then Inl ValueError else Inr (linspace_values be start stop (nat num)))"

text \<open>
  \<^verbatim>\<open>np.arange(start, stop, step)\<close> on doubles, for a non-zero step. The length is
  \<^verbatim>\<open>ceil((stop - start) / step)\<close>, computed in doubles (no point when that is not
  positive). The first point is \<^verbatim>\<open>start\<close>, the second \<^verbatim>\<open>start + step\<close>, and the
  library fills the rest as \<^verbatim>\<open>start + i * delta\<close>, \<^verbatim>\<open>delta\<close> being the difference
  of the first two points.
\<close>

definition arange :: "backend \<Rightarrow> real \<Rightarrow> real \<Rightarrow> real \<Rightarrow> real list" where
  "arange be start stop st =
     (let n = nat \<lceil>fl be (fl be (stop - start) / st)\<rceil>;
          nxt = fl be (start + st);
          delta = fl be (nxt - start)
      in map (\<lambda>i. if i = 0 then start else if i = 1 then nxt
                   else fl be (start + fl be (real i * delta))) [0..<n])"

text \<open>
  \<^verbatim>\<open>np.linspace(low, high, num, dtype=np.int32)\<close> followed by \<^verbatim>\<open>int(val)\<close>: the
  points of \<^verbatim>\<open>linspace\<close>, computed in doubles, each rounded down and cast to a
  32-bit integer (the library rounds down before an integer cast since its version
  1.20).
\<close>

definition linspace_int :: "backend \<Rightarrow> int \<Rightarrow> int \<Rightarrow> int \<Rightarrow> error + int list" where
  "linspace_int be start stop num =
     (case linspace be (real_of_int start) (real_of_int stop) num of
        Inl e \<Rightarrow> Inl e
      | Inr ys \<Rightarrow> Inr (map (floor_int32 be) ys))"

text \<open>
  \<^verbatim>\<open>np.arange(low, high, step, dtype=np.int32)\<close> on Python integers, followed by
  \<^verbatim>\<open>int(val)\<close>, for a non-zero step. The length is the ceiling of the quotient
  \<^verbatim>\<open>(high - low) / step\<close>, a division of Python integers giving a double. The first
  point \<^verbatim>\<open>low\<close> and the second \<^verbatim>\<open>low + step\<close> are stored as 32-bit integers;
  the rest is filled as \<^verbatim>\<open>first + i * delta\<close>, \<^verbatim>\<open>delta\<close> being the difference of
  the two stored points, in 32-bit integers.
\<close>

definition arange_int :: "backend \<Rightarrow> int \<Rightarrow> int \<Rightarrow> int \<Rightarrow> error + int list" where
  "arange_int be start stop st =
     (let n = nat \<lceil>fl be (real_of_int (stop - start) / real_of_int st)\<rceil>
      in if n = 0 then Inr []
         else
           (case store_int32 be start of
              Inl e \<Rightarrow> Inl e
            | Inr a \<Rightarrow>
                if n = 1 then Inr [a]
                else
                  (case store_int32 be (start + st) of
                     Inl e \<Rightarrow> Inl e
                   | Inr nxt \<Rightarrow>
                       (let delta = wrap_int32 (nxt - a)
                        in Inr (map (\<lambda>i. if i = 0 then a else if i = 1 then nxt
                                         else wrap_int32 (a + int i * delta))
                                  [0..<n])))))"

text \<open>
  The setter of \<^verbatim>\<open>Real.grid\<close>. The tests \<^verbatim>\<open>if self.num_samples\<close> and
  \<^verbatim>\<open>elif self.step\<close> are truth tests: \<^verbatim>\<open>None\<close> and \<^verbatim>\<open>0\<close> both fail them.
\<close>

definition Real_grid_from_step :: "backend \<Rightarrow> Real \<Rightarrow> real list option" where
  "Real_grid_from_step be self =
     (case Real.step self of
        None \<Rightarrow> None
      | Some s \<Rightarrow>
          if s \<noteq> 0 then Some (arange be (Real.low self) (Real.high self) s) else None)"

definition Real_grid_setter :: "backend \<Rightarrow> Real \<Rightarrow> real list option \<Rightarrow> error + Real" where
  "Real_grid_setter be self x =
     (case x of
        None \<Rightarrow>
          (case Real.num_samples self of
             None \<Rightarrow> Inr (self\<lparr>Real.grid := Real_grid_from_step be self\<rparr>)
           | Some n \<Rightarrow>
               if n \<noteq> 0 then
                 (case linspace be (Real.low self) (Real.high self) n of
                    Inl e \<Rightarrow> Inl e
                  | Inr g \<Rightarrow> Inr (self\<lparr>Real.grid := Some g\<rparr>))
               else Inr (self\<lparr>Real.grid := Real_grid_from_step be self\<rparr>))
      | Some g \<Rightarrow> Inr (self\<lparr>Real.grid := Some g\<rparr>))"

definition Integer_grid_from_step :: "backend \<Rightarrow> Integer \<Rightarrow> error + int list option" where
  "Integer_grid_from_step be self =
     (case Integer.step self of
        None \<Rightarrow> Inr None
      | Some s \<Rightarrow>
          if s \<noteq> 0 then
            (case arange_int be (Integer.low self) (Integer.high self) s of
               Inl e \<Rightarrow> Inl e
             | Inr g \<Rightarrow> Inr (Some g))
          else Inr None)"

definition Integer_grid_setter :: "backend \<Rightarrow> Integer \<Rightarrow> int list option
    \<Rightarrow> error + Integer" where
  "Integer_grid_setter be self x =
     (case x of
        None \<Rightarrow>
          (case Integer.num_samples self of
             None \<Rightarrow>
               (case Integer_grid_from_step be self of
                  Inl e \<Rightarrow> Inl e
                | Inr g \<Rightarrow> Inr (self\<lparr>Integer.grid := g\<rparr>))
           | Some n \<Rightarrow>
               if n \<noteq> 0 then
                 (case linspace_int be (Integer.low self) (Integer.high self) n of
                    Inl e \<Rightarrow> Inl e
                  | Inr g \<Rightarrow> Inr (self\<lparr>Integer.grid := Some g\<rparr>))
               else
                 (case Integer_grid_from_step be self of
                    Inl e \<Rightarrow> Inl e
                  | Inr g \<Rightarrow> Inr (self\<lparr>Integer.grid := g\<rparr>)))
      | Some g \<Rightarrow> Inr (self\<lparr>Integer.grid := Some g\<rparr>))"

text \<open>
  The first step of both constructors: when \<^verbatim>\<open>low\<close> is missing, a grid must be
  given and both bounds are taken from it (\<^verbatim>\<open>high\<close> is then overwritten).
\<close>

definition bounds_from :: "('a::linorder) option \<Rightarrow> 'a option \<Rightarrow> 'a list option
    \<Rightarrow> error + ('a \<times> 'a option)" where
  "bounds_from lo hi g =
     (case lo of
        Some l \<Rightarrow> Inr (l, hi)
      | None \<Rightarrow>
          (case g of
             None \<Rightarrow> Inl AssertionError
           | Some xs \<Rightarrow>
               (case np_min xs of
                  Inl e \<Rightarrow> Inl e
                | Inr l \<Rightarrow> (case np_max xs of Inl e \<Rightarrow> Inl e | Inr h \<Rightarrow> Inr (l, Some h)))))"

text \<open>
  \<^verbatim>\<open>Real.__init__\<close>. The statement \<^verbatim>\<open>self.counter += 1\<close> reads the attribute
  through the instance, finds the class attribute, and stores the sum as an instance
  attribute: the class attribute keeps its value. A missing upper bound reaches the
  library's comparison of the bounds, which raises TypeError.
\<close>

definition Real_init :: "backend \<Rightarrow> classes \<Rightarrow> Real_args \<Rightarrow> error + (classes \<times> Real)" where
  "Real_init be cls a =
     (case bounds_from (a_low a) (a_high a) (a_grid a) of
        Inl e \<Rightarrow> Inl e
      | Inr (lo, hi_opt) \<Rightarrow>
          (let c = Real_counter cls + 1;
               nm = (case a_name a of None \<Rightarrow> ''real_'' @ str_nat c | Some n \<Rightarrow> n);
               pr = base_prior (check_prior be (a_prior a))
           in case hi_opt of
                None \<Rightarrow> Inl TypeError
              | Some hi \<Rightarrow>
                  if \<not> Real_base_ok be lo hi pr then Inl ValueError
                  else
                    (case Real_grid_setter be
                            \<lparr>Real.counter = c, num_samples = a_num_samples a,
                             step = a_step a, low = lo, high = hi, prior = pr,
                             name = nm, grid = None\<rparr> (a_grid a) of
                       Inl e \<Rightarrow> Inl e
                     | Inr self \<Rightarrow> Inr (cls, self))))"

definition Integer_init :: "backend \<Rightarrow> classes \<Rightarrow> Integer_args
    \<Rightarrow> error + (classes \<times> Integer)" where
  "Integer_init be cls a =
     (case bounds_from (i_low a) (i_high a) (i_grid a) of
        Inl e \<Rightarrow> Inl e
      | Inr (lo, hi_opt) \<Rightarrow>
          (let c = Integer_counter cls + 1;
               nm = (case i_name a of None \<Rightarrow> ''integer_'' @ str_nat c | Some n \<Rightarrow> n);
               pr = base_prior (check_prior be (i_prior a))
           in case hi_opt of
                None \<Rightarrow> Inl TypeError
              | Some hi \<Rightarrow>
                  if \<not> Integer_base_ok be lo hi pr then Inl ValueError
                  else
                    (case Integer_grid_setter be
                            \<lparr>Integer.counter = c, num_samples = i_num_samples a,
                             step = i_step a, low = lo, high = hi, prior = pr,
                             name = nm, grid = None\<rparr> (i_grid a) of
                       Inl e \<Rightarrow> Inl e
                     | Inr self \<Rightarrow> Inr (cls, self))))"

text \<open>
  A Python process that calls the two constructors one after the other, the class
  attributes carried from each call to the next.
\<close>

datatype ctor_call = NewReal Real_args | NewInteger Integer_args

datatype parameter = PReal Real | PInteger Integer | PCategorical Categorical

fun run_constructors :: "backend \<Rightarrow> classes \<Rightarrow> ctor_call list
    \<Rightarrow> error + (classes \<times> parameter list)" where
  "run_constructors be cls [] = Inr (cls, [])"
| "run_constructors be cls (NewReal a # cs) =
     (case Real_init be cls a of
        Inl e \<Rightarrow> Inl e
      | Inr (cls', p) \<Rightarrow>
          (case run_constructors be cls' cs of
             Inl e \<Rightarrow> Inl e
           | Inr (cls'', ps) \<Rightarrow> Inr (cls'', PReal p # ps)))"
| "run_constructors be cls (NewInteger a # cs) =
     (case Integer_init be cls a of
        Inl e \<Rightarrow> Inl e
      | Inr (cls', p) \<Rightarrow>
          (case run_constructors be cls' cs of
             Inl e \<Rightarrow> Inl e
           | Inr (cls'', ps) \<Rightarrow> Inr (cls'', PInteger p # ps)))"

text \<open>Whether a call leaves the name out, and the name of the parameter it made.\<close>

fun unnamed :: "ctor_call \<Rightarrow> bool" where
  "unnamed (NewReal a) = (a_name a = None)"
| "unnamed (NewInteger a) = (i_name a = None)"

fun auto_name :: "ctor_call \<Rightarrow> string" where
  "auto_name (NewReal a) = ''real_1''"
| "auto_name (NewInteger a) = ''integer_1''"

fun parameter_name :: "parameter \<Rightarrow> string option" where
  "parameter_name (PReal r) = Some (Real.name r)"
| "parameter_name (PInteger i) = Some (Integer.name i)"
| "parameter_name (PCategorical c) = Categorical.name c"

text \<open>
  \<^verbatim>\<open>serialize\<close>: the entries of the instance dictionary whose value is not
  callable, each value rendered by \<^verbatim>\<open>Jsonize\<close>, then the entry \<^verbatim>\<open>'type'\<close> set
  by \<^verbatim>\<open>dict.update\<close>. The dictionary of a \<^verbatim>\<open>Real\<close> or an \<^verbatim>\<open>Integer\<close> holds
  \<^verbatim>\<open>counter\<close>, \<^verbatim>\<open>num_samples\<close> and \<^verbatim>\<open>step\<close>, set before the library's
  constructor runs, then the library's entries, then \<^verbatim>\<open>_grid\<close>; that of a
  \<^verbatim>\<open>Categorical\<close> holds the library's entries alone. \<^verbatim>\<open>Jsonize\<close> renders
  \<^verbatim>\<open>None\<close> as the string \<^verbatim>\<open>'None'\<close>.
\<close>

definition opt_val :: "('a \<Rightarrow> pyval) \<Rightarrow> 'a option \<Rightarrow> pyval" where
  "opt_val f x = (case x of None \<Rightarrow> VStr ''None'' | Some v \<Rightarrow> f v)"

definition Real_serialize :: "backend \<Rightarrow> Real \<Rightarrow> (string \<times> pyval) list" where
  "Real_serialize be self =
     AList.update ''type'' (VStr ''Real'')
       (dict_update
          [(''counter'', VInt (int (Real.counter self))),
           (''num_samples'', opt_val VInt (Real.num_samples self)),
           (''step'', opt_val VFloat (Real.step self))]
          (Real_base_dict be (Real.low self) (Real.high self) (Real.prior self)
             (Real.name self) @
           [(''_grid'', opt_val (\<lambda>g. VList (map VFloat g)) (Real.grid self))]))"

definition Integer_serialize :: "backend \<Rightarrow> Integer \<Rightarrow> (string \<times> pyval) list" where
  "Integer_serialize be self =
     AList.update ''type'' (VStr ''Integer'')
       (dict_update
          [(''counter'', VInt (int (Integer.counter self))),
           (''num_samples'', opt_val VInt (Integer.num_samples self)),
           (''step'', opt_val VInt (Integer.step self))]
          (Integer_base_dict be (Integer.low self) (Integer.high self)
             (Integer.prior self) (Integer.name self) @
           [(''_grid'', opt_val (\<lambda>g. VList (map VInt g)) (Integer.grid self))]))"

definition Categorical_serialize :: "backend \<Rightarrow> Categorical \<Rightarrow> (string \<times> pyval) list" where
  "Categorical_serialize be self =
     AList.update ''type'' (VStr ''Integer'')
       (dict_update []
          (Categorical_base_dict be (Categorical.categories self) (Categorical.prior self)
             (Categorical.name self)))"

section \<open>Static parameters of the deep-learning experiments: \<^verbatim>\<open>experiments/_dl.py\<close>\<close>

text \<open>
  The three attributes \<^verbatim>\<open>lookback_space\<close>, \<^verbatim>\<open>batch_size_space\<close> and
  \<^verbatim>\<open>lr_space\<close> are assigned freely by the user: \<^verbatim>\<open>None\<close>, a list of parameters
  (the constructor sets \<^verbatim>\<open>lookback_space = []\<close>) or one parameter object. The
  properties test them with \<^verbatim>\<open>if\<close>: \<^verbatim>\<open>None\<close> and the empty list are false, a
  parameter object is true.
\<close>

datatype space_attr = ANone | AList "parameter list" | AParam parameter

fun truthy :: "space_attr \<Rightarrow> bool" where
  "truthy ANone = False"
| "truthy (AList ps) = (ps \<noteq> [])"
| "truthy (AParam p) = True"

record DLRegressionExperiments =
  lookback_space :: space_attr
  batch_size_space :: space_attr
  lr_space :: space_attr
  model_kws :: config

definition static_space :: "DLRegressionExperiments \<Rightarrow> space_attr list" where
  "static_space self =
     (if truthy (lookback_space self) then [lookback_space self] else []) @
     (if truthy (batch_size_space self) then [batch_size_space self] else []) @
     (if truthy (lr_space self) then [lr_space self] else [])"

definition static_x0 :: "DLRegressionExperiments \<Rightarrow> pyval list" where
  "static_x0 self =
     (if truthy (lookback_space self)
      then [dict_get (model_kws self) ''lookback'' (VInt 5)] else []) @
     (if truthy (batch_size_space self)
      then [dict_get (model_kws self) ''batch_size'' (VInt 32)] else []) @
     (if truthy (lr_space self)
      then [dict_get (model_kws self) ''lr'' (VFloat (1 / 1000))] else [])"

text \<open>
  The part of \<^verbatim>\<open>DLRegressionExperiments.__init__\<close> that sets the three spaces:
  no lookback space, the batch sizes 4, 8, 12, 16, 32, and a learning rate between
  \<open>10\<^sup>-\<^sup>5\<close> and 0.005.
\<close>

definition DLRegressionExperiments_init :: "backend \<Rightarrow> classes \<Rightarrow> config
    \<Rightarrow> error + (classes \<times> DLRegressionExperiments)" where
  "DLRegressionExperiments_init be cls kws =
     (case Real_init be cls
             \<lparr>a_low = Some (1 / 100000), a_high = Some (5 / 1000), a_num_samples = None,
              a_step = None, a_grid = None, a_name = Some ''lr'', a_prior = None\<rparr> of
        Inl e \<Rightarrow> Inl e
      | Inr (cls', lr) \<Rightarrow>
          Inr (cls',
               \<lparr>lookback_space = AList [],
                batch_size_space =
                  AParam (PCategorical
                    \<lparr>categories = [VInt 4, VInt 8, VInt 12, VInt 16, VInt 32],
                     prior = None, name = Some ''batch_size''\<rparr>),
                lr_space = AParam (PReal lr),
                model_kws = kws\<rparr>))"

text \<open>
  The specification's table of static parameters, against which the two properties
  are compared: each static parameter with its keyword and its documented default,
  in the order lookback, batch size, learning rate.
\<close>

definition static_table_spec :: "DLRegressionExperiments \<Rightarrow> (space_attr \<times> string \<times> pyval) list" where
  "static_table_spec self =
     [(lookback_space self, ''lookback'', VInt 5),
      (batch_size_space self, ''batch_size'', VInt 32),
      (lr_space self, ''lr'', VFloat (1 / 1000))]"

definition enabled_spec :: "DLRegressionExperiments \<Rightarrow> (space_attr \<times> string \<times> pyval) list" where
  "enabled_spec self = filter (\<lambda>(sp, k, d). truthy sp) (static_table_spec self)"

section \<open>The experiments: \<^verbatim>\<open>experiments/_main.py\<close>\<close>

subsection \<open>Collaborators\<close>

text \<open>
  Arrays of true and predicted values, and a dictionary from metric names to values.
\<close>

type_synonym arr = "pyfloat list"
type_synonym results = "arr \<times> arr"
type_synonym metric_dict = "(string \<times> pyfloat) list"

text \<open>The property \<^verbatim>\<open>mode\<close>, which every subclass defines, and the table \<^verbatim>\<open>Monitor\<close>.\<close>

datatype mode = Regression | Classification

definition Monitor :: "mode \<Rightarrow> string list" where
  "Monitor m =
     (case m of
        Regression \<Rightarrow>
          [''r2'', ''corr_coeff'', ''mse'', ''rmse'', ''r2_score'', ''nse'', ''kge'',
           ''mape'', ''pbias'', ''bias'', ''mae'', ''nrmse'', ''mase'']
      | Classification \<Rightarrow> [''accuracy'', ''precision'', ''recall'', ''mse''])"

text \<open>
  The handle of a built model, as far as this module reads it: its path, the
  attribute \<^verbatim>\<open>val_metric\<close>, the dictionary \<^verbatim>\<open>config\<close> (of which the module
  reads the entry \<^verbatim>\<open>'val_metric'\<close>), the multiclass flag, the three predictions
  the module asks for (on \<^verbatim>\<open>'validation'\<close>, on the data of \<^verbatim>\<open>fit\<close>, on
  \<^verbatim>\<open>'training'\<close>; each may raise), and the attributes \<^verbatim>\<open>cross_val_<metric>\<close>
  (\<open>None\<close> where the attribute does not exist). The module reads the validation
  metric of a model in two ways, as \<^verbatim>\<open>model_.val_metric\<close> and as
  \<^verbatim>\<open>model_.config['val_metric']\<close>; nothing in it makes the two agree, and the
  handle keeps them apart. The data passed to \<^verbatim>\<open>fit\<close> is handed to the
  collaborators unchanged, so the model leaves it implicit.
\<close>

record model_handle =
  path :: string
  val_metric :: string
  config :: config
  is_multiclass :: bool
  predict_validation :: "error + results"
  predict_data :: "error + results"
  predict_training :: "error + results"
  cross_val :: "string \<Rightarrow> pyval option"

text \<open>
  What the optimizer is asked for. The search space and the default point are
  passed to the optimizer unread by this module and are left out.
\<close>

record opt_request =
  opt_method :: string
  num_iterations :: int
  variant :: string
  hpo_kws :: config

text \<open>
  Everything outside the module, as functions:
  \<^item> \<open>Model\<close>: the model class called with a prefix, a verbosity, the keywords of the
    experiment and the suggested parameters;
  \<^item> \<open>Model_fit\<close>, \<open>Model_cross_val_score\<close>: training, which returns the trained handle;
  \<^item> \<open>Metrics\<close>: the metric objects of the metrics library, for a mode, a pair of
    arrays, the flag for \<^verbatim>\<open>remove_zero=True, remove_neg=True\<close> and the multiclass
    flag; the object maps a metric name to the value of calling it, \<open>None\<close> when
    it has no such attribute;
  \<^item> \<open>np_std\<close>: the standard deviation of an array;
  \<^item> \<open>clear_weights\<close>: the ranked checkpoints of a search directory, each a name with
    a path and a weight file;
  \<^item> \<open>build_from_config\<close>: the method of that name, which the base class leaves to
    its subclasses; it returns the two prediction pairs and the handle it stores in
    \<^verbatim>\<open>model_\<close>, if it stores one;
  \<^item> \<open>model_method\<close>: the builder methods \<^verbatim>\<open>model_<name>\<close> of the subclasses;
  \<^item> \<open>suggest\<close>, \<open>trial_budget\<close>, \<open>best_paras\<close>: the search backend, which proposes
    the next trial from the history of trials so far (\<open>None\<close>: it stops), runs at
    most \<open>trial_budget\<close> trials, and names the best parameters of a history;
  \<^item> \<open>getcwd\<close>: the working directory.
\<close>

record collaborators =
  Model :: "string \<Rightarrow> pyval \<Rightarrow> config \<Rightarrow> config \<Rightarrow> error + model_handle"
  Model_fit :: "model_handle \<Rightarrow> error + model_handle"
  Model_cross_val_score :: "model_handle \<Rightarrow> pyval \<Rightarrow> error + model_handle"
  Metrics :: "mode \<Rightarrow> results \<Rightarrow> bool \<Rightarrow> bool \<Rightarrow> string \<Rightarrow> pyfloat option"
  np_std :: "arr \<Rightarrow> pyfloat"
  clear_weights :: "string \<Rightarrow> (string \<times> string \<times> string) list"
  build_from_config :: "string \<Rightarrow> string
      \<Rightarrow> error + (model_handle option \<times> results \<times> results)"
  model_method :: "string \<Rightarrow> config \<Rightarrow> error + config"
  suggest :: "opt_request \<Rightarrow> (config \<times> pyfloat) list \<Rightarrow> config option"
  trial_budget :: "opt_request \<Rightarrow> nat"
  best_paras :: "(config \<times> pyfloat) list \<Rightarrow> config"
  getcwd :: string

subsection \<open>The state of an experiment\<close>

text \<open>
  The attributes of an \<^verbatim>\<open>Experiments\<close> object. Dictionaries are association lists
  in insertion order; a trailing underscore of the source is written as a prime.
  \<open>monitor\<close>, \<open>model'\<close> and \<open>optimizer\<close> are \<open>None\<close> while the
  attribute does not exist; \<open>optimizer\<close> holds the trial history of the last search.
  \<open>methods\<close> are the names under which the object has a callable attribute. The three
  last fields are the files \<^verbatim>\<open>metrics.json\<close>, \<^verbatim>\<open>features.json\<close> and the saved
  configuration, \<open>None\<close> until written.
\<close>

type_synonym metrics_table = "(string \<times> (string \<times> metric_dict) list) list"
type_synonym features_table =
  "(string \<times> (string \<times> (string \<times> metric_dict) list) list) list"

record saved_config =
  c_models :: "string list"
  c_exp_path :: string
  c_exp_name :: string
  c_cases :: "(string \<times> config) list"
  c_eval_models :: "(string \<times> string) list"
  c_optimized_models :: "(string \<times> string) list"

record Experiments =
  exp_name :: string
  exp_path :: string
  verbosity :: int
  mode :: mode
  models :: "string list"
  methods :: "string list"
  cases :: "(string \<times> config) list"
  monitor :: "string list option"
  model_kws :: config
  model' :: "model_handle option"
  optimizer :: "(config \<times> pyfloat) list option"
  cv_scores' :: "(string \<times> pyval) list"
  cv_scoring :: "string option"
  eval_models :: "(string \<times> string) list"
  optimized_models :: "(string \<times> string) list"
  metrics :: metrics_table
  features :: features_table
  iter_metrics :: "(string \<times> (nat \<times> metric_dict) list) list"
  model_iter_metric :: "(nat \<times> metric_dict) list"
  iter' :: nat
  metrics_json :: "metrics_table option"
  features_json :: "features_table option"
  config_json :: "saved_config option"

text \<open>\<^verbatim>\<open>os.sep\<close> and \<^verbatim>\<open>os.path.join\<close> of two parts, on a POSIX system.\<close>

definition SEP :: string where
  "SEP = ''/''"

definition path_join :: "string \<Rightarrow> string \<Rightarrow> string" where
  "path_join a b =
     (if startswith b SEP then b
      else if a = [] \<or> last a = CHR ''/'' then a @ b
      else a @ SEP @ b)"

text \<open>
  The renaming \<^verbatim>\<open>'model_' + m if not m.startswith('model_') else m\<close>, which
  \<^verbatim>\<open>__init__\<close>, \<^verbatim>\<open>_check_include_arg\<close> and \<^verbatim>\<open>consider_exclude\<close> apply to
  every name they are given.
\<close>

definition with_prefix :: "string \<Rightarrow> string" where
  "with_prefix m = (if \<not> startswith m ''model_'' then ''model_'' @ m else m)"

text \<open>
  \<^verbatim>\<open>s.split(sep)[1]\<close> for a non-empty separator: the part of \<open>s\<close> between the
  first and the second occurrence of \<open>sep\<close>, IndexError when \<open>sep\<close> does not occur.
\<close>

fun find_sep :: "string \<Rightarrow> string \<Rightarrow> (string \<times> string) option" where
  "find_sep sep [] = None"
| "find_sep sep (c # cs) =
     (if startswith (c # cs) sep then Some ([], drop (length sep) (c # cs))
      else map_option (\<lambda>(b, a). (c # b, a)) (find_sep sep cs))"

definition split_second :: "string \<Rightarrow> string \<Rightarrow> error + string" where
  "split_second s sep =
     (case find_sep sep s of
        None \<Rightarrow> Inl IndexError
      | Some (b, rest) \<Rightarrow>
          (case find_sep sep rest of None \<Rightarrow> Inr rest | Some (b2, a2) \<Rightarrow> Inr b2))"

text \<open>
  \<^verbatim>\<open>Experiments.__init__\<close>: the models are the callable attributes whose name
  starts with \<^verbatim>\<open>model_\<close>, followed by the renamed keys of \<^verbatim>\<open>cases\<close>;
  \<^verbatim>\<open>monitor\<close> is set only when the argument is \<^verbatim>\<open>None\<close>. \<open>attrs\<close> are the
  callable attributes of the object in the order of \<^verbatim>\<open>dir\<close>; the other attributes
  are those the subclasses set before they call this constructor.
\<close>

definition Experiments_init :: "collaborators \<Rightarrow> string list \<Rightarrow> mode \<Rightarrow> config
    \<Rightarrow> (string \<times> config) list \<Rightarrow> string \<Rightarrow> int \<Rightarrow> string list option \<Rightarrow> Experiments" where
  "Experiments_init c attrs md kws cases_arg nm verb monitor_arg =
     (let ms = filter (\<lambda>m. startswith m ''model_'') attrs;
          cs = fold (\<lambda>(k, v) acc. AList.update (with_prefix k) v acc) cases_arg []
      in \<lparr>exp_name = nm,
          exp_path = path_join (path_join (getcwd c) ''results'') nm,
          verbosity = verb, mode = md,
          models = ms @ map fst cs,
          methods = attrs, cases = cs,
          monitor = (case monitor_arg of None \<Rightarrow> Some (Monitor md) | Some m \<Rightarrow> None),
          model_kws = kws, model' = None, optimizer = None,
          cv_scores' = [], cv_scoring = None, eval_models = [], optimized_models = [],
          metrics = [], features = [], iter_metrics = [], model_iter_metric = [],
          iter' = 0, metrics_json = None, features_json = None, config_json = None\<rparr>)"

definition reset :: "Experiments \<Rightarrow> Experiments" where
  "reset self =
     self\<lparr>cv_scores' := [], eval_models := [], optimized_models := [],
          metrics := [], features := [], iter_metrics := []\<rparr>"

subsection \<open>Include and exclude\<close>

text \<open>An argument that is \<^verbatim>\<open>None\<close>, one string or a list of strings.\<close>

datatype names_arg = NoNames | OneName string | Names "string list"

definition check_include_arg :: "Experiments \<Rightarrow> names_arg \<Rightarrow> error + string list" where
  "check_include_arg self include =
     (let inc = (case include of
                   OneName s \<Rightarrow> [s] | NoNames \<Rightarrow> models self | Names l \<Rightarrow> l);
          inc' = map with_prefix inc
      in if list_all (\<lambda>e. e \<in> set (models self)) inc' then Inr inc'
         else Inl AssertionError)"

text \<open>
  \<^verbatim>\<open>consider_exclude\<close> with a list to filter: each renamed name must be a model and
  must still be in the list, from which \<^verbatim>\<open>list.remove\<close> takes its first occurrence.
\<close>

fun exclude_loop :: "string list \<Rightarrow> string list \<Rightarrow> string list option
    \<Rightarrow> error + string list option" where
  "exclude_loop [] ms to_filter = Inr to_filter"
| "exclude_loop (e # es) ms to_filter =
     (if e \<notin> set ms then Inl AssertionError
      else (case to_filter of
              None \<Rightarrow> exclude_loop es ms None
            | Some tf \<Rightarrow>
                if e \<notin> set tf then Inl AssertionError
                else exclude_loop es ms (Some (remove1 e tf))))"

definition consider_exclude :: "names_arg \<Rightarrow> string list \<Rightarrow> string list option
    \<Rightarrow> error + string list option" where
  "consider_exclude exclude ms to_filter =
     (case exclude of
        NoNames \<Rightarrow> Inr to_filter
      | OneName s \<Rightarrow> exclude_loop (map with_prefix [s]) ms to_filter
      | Names l \<Rightarrow> exclude_loop (map with_prefix l) ms to_filter)"

subsection \<open>Building, training and evaluating one model\<close>

text \<open>
  \<^verbatim>\<open>_build\<close>: a keyword \<^verbatim>\<open>verbosity\<close> of the experiment is popped from its
  keywords and replaces the default verbosity; the built handle is stored in
  \<^verbatim>\<open>model_\<close>. The suggested parameters pass through \<^verbatim>\<open>jsonize\<close>, which
  leaves the plain values of the model as they are.
\<close>

definition build :: "collaborators \<Rightarrow> Experiments \<Rightarrow> string \<Rightarrow> config \<Rightarrow> error + Experiments" where
  "build c self title suggested_paras =
     (let dflt = VInt (max (verbosity self - 1) 0);
          verb = dict_get (model_kws self) ''verbosity'' dflt;
          kws = AList.delete ''verbosity'' (model_kws self)
      in case Model c title verb kws suggested_paras of
           Inl e \<Rightarrow> Inl e
         | Inr h \<Rightarrow> Inr (self\<lparr>model_kws := kws, model' := Some h\<rparr>))"

text \<open>\<^verbatim>\<open>self.model_.config['val_metric']\<close>; a missing key is a KeyError.\<close>

definition config_val_metric :: "model_handle \<Rightarrow> error + pyval" where
  "config_val_metric h =
     (case map_of (config h) ''val_metric'' of None \<Rightarrow> Inl KeyError | Some v \<Rightarrow> Inr v)"

text \<open>
  \<^verbatim>\<open>_fit\<close>: training, or cross validation scored by the validation metric of the
  model's configuration. The trained model is the object in \<^verbatim>\<open>model_\<close>.
\<close>

definition fit_model :: "collaborators \<Rightarrow> Experiments \<Rightarrow> bool \<Rightarrow> error + Experiments" where
  "fit_model c self cross_validate =
     (case model' self of
        None \<Rightarrow> Inl AttributeError
      | Some h \<Rightarrow>
          (case (if cross_validate then
                   (case config_val_metric h of
                      Inl e \<Rightarrow> Inl e
                    | Inr scoring \<Rightarrow> Model_cross_val_score c h scoring)
                 else Model_fit c h) of
             Inl e \<Rightarrow> Inl e
           | Inr h' \<Rightarrow> Inr (self\<lparr>model' := Some h'\<rparr>)))"

definition predict :: "Experiments \<Rightarrow> error + (results \<times> results)" where
  "predict self =
     (case model' self of
        None \<Rightarrow> Inl AttributeError
      | Some h \<Rightarrow>
          (case predict_data h of
             Inl e \<Rightarrow> Inl e
           | Inr test \<Rightarrow>
               (case predict_training h of
                  Inl e \<Rightarrow> Inl e
                | Inr train \<Rightarrow> Inr (train, test))))"

text \<open>
  The loop \<^verbatim>\<open>for metric in self.monitor: d[metric] = getattr(metrics, metric)()\<close>.
\<close>

fun monitor_loop :: "(string \<Rightarrow> pyfloat option) \<Rightarrow> string list \<Rightarrow> metric_dict
    \<Rightarrow> error + metric_dict" where
  "monitor_loop m [] acc = Inr acc"
| "monitor_loop m (k # ks) acc =
     (case m k of
        None \<Rightarrow> Inl AttributeError
      | Some v \<Rightarrow> monitor_loop m ks (AList.update k v acc))"

text \<open>
  The two last steps of \<^verbatim>\<open>_evaluate\<close>: the score is subtracted from 1 when the
  entry \<^verbatim>\<open>'val_metric'\<close> of the model's configuration is one of eight names, and
  a score that is not finite is replaced by 9999.
\<close>

definition larger_is_better :: "string list" where
  "larger_is_better =
     [''r2'', ''nse'', ''kge'', ''r2_mod'', ''r2_adj'', ''r2_score'', ''accuracy'',
      ''f1_score'']"

definition oriented :: "pyval \<Rightarrow> pyfloat \<Rightarrow> pyfloat" where
  "oriented vm val_score =
     (if vm \<in> set (map VStr larger_is_better) then one_minus val_score else val_score)"

definition finite_or_sentinel :: "pyfloat \<Rightarrow> pyfloat" where
  "finite_or_sentinel val_score =
     (if \<not> isfinite val_score then Finite 9999 else val_score)"

definition evaluate :: "collaborators \<Rightarrow> Experiments \<Rightarrow> error + (pyfloat \<times> Experiments)" where
  "evaluate c self =
     (case model' self of
        None \<Rightarrow> Inl AttributeError
      | Some h \<Rightarrow>
          (case predict_validation h of
             Inl e \<Rightarrow> Inl e
           | Inr tp \<Rightarrow>
               (let metrics_obj = Metrics c (mode self) tp True (is_multiclass h)
                in case monitor self of
                     None \<Rightarrow> Inl AttributeError
                   | Some mon \<Rightarrow>
                       (case monitor_loop metrics_obj mon [] of
                          Inl e \<Rightarrow> Inl e
                        | Inr test_metrics \<Rightarrow>
                            (let self' = self
                                   \<lparr>model_iter_metric :=
                                      AList.update (iter' self) test_metrics
                                        (model_iter_metric self),
                                    iter' := iter' self + 1\<rparr>
                             in case metrics_obj (val_metric h) of
                                  None \<Rightarrow> Inl AttributeError
                                | Some val_score \<Rightarrow>
                                    (case config_val_metric h of
                                       Inl e \<Rightarrow> Inl e
                                     | Inr vm \<Rightarrow>
                                         Inr (finite_or_sentinel (oriented vm val_score),
                                              self')))))))"

text \<open>
  \<^verbatim>\<open>_build_and_run\<close> returns the two prediction pairs when \<^verbatim>\<open>predict\<close> is true
  and the validation score otherwise.
\<close>

datatype run_result = Predictions results results | Score pyfloat

definition build_and_run :: "collaborators \<Rightarrow> Experiments \<Rightarrow> bool \<Rightarrow> bool \<Rightarrow> string \<Rightarrow> config
    \<Rightarrow> error + (run_result \<times> Experiments)" where
  "build_and_run c self predict_flag cross_validate title kwargs =
     (case build c self title kwargs of
        Inl e \<Rightarrow> Inl e
      | Inr s1 \<Rightarrow>
          (case fit_model c s1 cross_validate of
             Inl e \<Rightarrow> Inl e
           | Inr s2 \<Rightarrow>
               if predict_flag then
                 (case predict s2 of
                    Inl e \<Rightarrow> Inl e
                  | Inr (train, test) \<Rightarrow> Inr (Predictions train test, s2))
               else
                 (case evaluate c s2 of
                    Inl e \<Rightarrow> Inl e
                  | Inr (v, s3) \<Rightarrow> Inr (Score v, s3))))"

text \<open>
  \<^verbatim>\<open>_populate_results\<close>: the entry of the model, under its name with the prefix
  \<^verbatim>\<open>model_\<close>, in the features table and in the metrics table.
\<close>

definition populate_results :: "collaborators \<Rightarrow> Experiments \<Rightarrow> string \<Rightarrow> results \<Rightarrow> results
    \<Rightarrow> error + Experiments" where
  "populate_results c self model_type0 train_results test_results =
     (let model_type = (if \<not> startswith model_type0 ''model_'' then ''model_'' @ model_type0
                        else model_type0);
          feats =
            [(''train'',
                [(''true'', [(''std'', np_std c (fst train_results))]),
                 (''simulation'', [(''std'', np_std c (snd train_results))])]),
             (''test'',
                [(''true'', [(''std'', np_std c (fst test_results))]),
                 (''simulation'', [(''std'', np_std c (snd test_results))])])];
          s1 = self\<lparr>features := AList.update model_type feats (features self)\<rparr>
      in case model' s1 of
           None \<Rightarrow> Inl AttributeError
         | Some h \<Rightarrow>
             (case monitor s1 of
                None \<Rightarrow> Inl AttributeError
              | Some mon \<Rightarrow>
                  (case monitor_loop
                          (Metrics c (mode s1) train_results False (is_multiclass h))
                          mon [] of
                     Inl e \<Rightarrow> Inl e
                   | Inr train_metrics \<Rightarrow>
                       (case monitor_loop
                               (Metrics c (mode s1) test_results False (is_multiclass h))
                               mon [] of
                          Inl e \<Rightarrow> Inl e
                        | Inr test_metrics \<Rightarrow>
                            Inr (s1\<lparr>metrics :=
                                      AList.update model_type
                                        [(''train'', train_metrics),
                                         (''test'', test_metrics)]
                                        (metrics s1)\<rparr>)))))"

subsection \<open>The objective, the search and the two policies after it\<close>

text \<open>
  \<^verbatim>\<open>objective_fn\<close>, the closure inside \<^verbatim>\<open>fit\<close>: the configuration is the case
  of the model, updated in place with the suggested parameters, or else what the
  builder method of the model returns.
\<close>

definition objective_fn :: "collaborators \<Rightarrow> Experiments \<Rightarrow> string \<Rightarrow> string \<Rightarrow> bool \<Rightarrow> bool
    \<Rightarrow> config \<Rightarrow> error + (run_result \<times> Experiments)" where
  "objective_fn c self model_type model_name predict_flag cross_validate suggested_paras =
     (let title = exp_name self @ SEP @ model_name
      in case map_of (cases self) model_type of
           Some cfg \<Rightarrow>
             (let cfg' = dict_update cfg suggested_paras
              in build_and_run c
                   (self\<lparr>cases := AList.update model_type cfg' (cases self)\<rparr>)
                   predict_flag cross_validate title cfg')
         | None \<Rightarrow>
             (case map_of (cases self) model_name of
                Some cfg \<Rightarrow>
                  (let cfg' = dict_update cfg suggested_paras
                   in build_and_run c
                        (self\<lparr>cases := AList.update model_name cfg' (cases self)\<rparr>)
                        predict_flag cross_validate title cfg')
              | None \<Rightarrow>
                  if model_type \<in> set (methods self) then
                    (case model_method c model_type suggested_paras of
                       Inl e \<Rightarrow> Inl e
                     | Inr cfg \<Rightarrow>
                         build_and_run c self predict_flag cross_validate title cfg)
                  else Inl TypeError))"

text \<open>
  The search: the backend proposes a trial from the history, the objective is called
  on it, and its score joins the history, until the backend stops or its budget of
  trials is used. An exception in a trial ends the search with that exception.
\<close>

fun search_loop :: "collaborators \<Rightarrow> opt_request \<Rightarrow> string \<Rightarrow> bool \<Rightarrow> nat \<Rightarrow> Experiments
    \<Rightarrow> (config \<times> pyfloat) list \<Rightarrow> error + (Experiments \<times> (config \<times> pyfloat) list)" where
  "search_loop c req model_name cross_validate 0 self hist = Inr (self, hist)"
| "search_loop c req model_name cross_validate (Suc n) self hist =
     (case suggest c req hist of
        None \<Rightarrow> Inr (self, hist)
      | Some paras \<Rightarrow>
          (case objective_fn c self (variant req) model_name False cross_validate paras of
             Inl e \<Rightarrow> Inl e
           | Inr (Predictions train test, s) \<Rightarrow> Inl TypeError
           | Inr (Score v, s) \<Rightarrow>
               search_loop c req model_name cross_validate n s (hist @ [(paras, v)])))"

definition hyperopt_fit :: "collaborators \<Rightarrow> opt_request \<Rightarrow> string \<Rightarrow> bool \<Rightarrow> Experiments
    \<Rightarrow> error + Experiments" where
  "hyperopt_fit c req model_name cross_validate self =
     (case search_loop c req model_name cross_validate (trial_budget c req) self [] of
        Inl e \<Rightarrow> Inl e
      | Inr (s, hist) \<Rightarrow> Inr (s\<lparr>optimizer := Some hist\<rparr>))"

text \<open>The test \<^verbatim>\<open>best_paras.get('lookback', 1) > 1\<close>.\<close>

definition lookback_gt_one :: "config \<Rightarrow> error + bool" where
  "lookback_gt_one paras =
     (case dict_get paras ''lookback'' (VInt 1) of
        VInt n \<Rightarrow> Inr (n > 1)
      | VFloat r \<Rightarrow> Inr (r > 1)
      | _ \<Rightarrow> Inl TypeError)"

text \<open>
  \<^verbatim>\<open>train_best\<close>: a new model is built from the best parameters of the search,
  trained, and its predictions are entered in the tables.
\<close>

definition train_best :: "collaborators \<Rightarrow> Experiments \<Rightarrow> string \<Rightarrow> error + Experiments" where
  "train_best c self model_type =
     (case optimizer self of
        None \<Rightarrow> Inl AttributeError
      | Some hist \<Rightarrow>
          (case lookback_gt_one (best_paras c hist) of
             Inl e \<Rightarrow> Inl e
           | Inr b \<Rightarrow>
               (let model_key = (if b then ''layers'' else model_type)
                in case build_and_run c self True False
                          (exp_name self @ SEP @ model_type @ SEP @ ''best'')
                          [(''model'', VDict [(model_key, VDict (best_paras c hist))])] of
                     Inl e \<Rightarrow> Inl e
                   | Inr (Score v, s) \<Rightarrow> Inl TypeError
                   | Inr (Predictions train test, s) \<Rightarrow>
                       populate_results c s model_type train test)))"

text \<open>
  \<^verbatim>\<open>eval_best\<close>: without a ranked checkpoint it returns what \<^verbatim>\<open>train_best\<close>
  returns; otherwise every checkpoint is rebuilt and those whose name starts with
  \<^verbatim>\<open>1_\<close> are entered in the tables.
\<close>

fun eval_best_loop :: "collaborators \<Rightarrow> Experiments \<Rightarrow> string
    \<Rightarrow> (string \<times> string \<times> string) list \<Rightarrow> error + Experiments" where
  "eval_best_loop c self model_type [] = Inr self"
| "eval_best_loop c self model_type ((md, mod_dir, mod_weights) # rest) =
     (case build_from_config c (path_join mod_dir ''config.json'') mod_weights of
        Inl e \<Rightarrow> Inl e
      | Inr (h, train_results, test_results) \<Rightarrow>
          (let s1 = (case h of None \<Rightarrow> self | Some h' \<Rightarrow> self\<lparr>model' := Some h'\<rparr>)
           in if startswith md ''1_'' then
                (case populate_results c s1 model_type train_results test_results of
                   Inl e \<Rightarrow> Inl e
                 | Inr s2 \<Rightarrow> eval_best_loop c s2 model_type rest)
              else eval_best_loop c s1 model_type rest))"

definition eval_best :: "collaborators \<Rightarrow> Experiments \<Rightarrow> string \<Rightarrow> string \<Rightarrow> error + Experiments" where
  "eval_best c self model_type opt_dir =
     (let best_models = clear_weights c opt_dir
      in if length best_models < 1 then train_best c self model_type
         else eval_best_loop c self model_type best_models)"

subsection \<open>\<^verbatim>\<open>fit\<close>\<close>

record fit_args =
  run_type :: string
  f_opt_method :: string
  f_num_iterations :: int
  f_include :: names_arg
  f_exclude :: names_arg
  cross_validate :: bool
  post_optimize :: string
  f_hpo_kws :: config

text \<open>
  The body of the loop of \<^verbatim>\<open>fit\<close> for a model that is not excluded, in two
  parts: the branch on \<^verbatim>\<open>run_type\<close>, and what follows it.
\<close>

definition run_or_optimize :: "collaborators \<Rightarrow> Experiments \<Rightarrow> fit_args \<Rightarrow> string \<Rightarrow> string
    \<Rightarrow> error + Experiments" where
  "run_or_optimize c s0 a model_type model_name =
     (if run_type a = ''dry_run'' then
        (case objective_fn c s0 model_type model_name True (cross_validate a) [] of
           Inl e \<Rightarrow> Inl e
         | Inr (Score v, s) \<Rightarrow> Inl TypeError
         | Inr (Predictions train test, s) \<Rightarrow>
             populate_results c s model_name train test)
      else
        (case (if model_type \<in> set (methods s0)
               then map_sum id (\<lambda>cfg. ()) (model_method c model_type [])
               else Inr ()) of
           Inl e \<Rightarrow> Inl e
         | Inr u \<Rightarrow>
             (let opt_dir = path_join (getcwd c)
                    (''results'' @ SEP @ exp_name s0 @ SEP @ model_name)
              in case hyperopt_fit c
                        \<lparr>opt_method = f_opt_method a,
                         num_iterations = f_num_iterations a,
                         variant = model_type, hpo_kws = f_hpo_kws a\<rparr>
                        model_name (cross_validate a) s0 of
                   Inl e \<Rightarrow> Inl e
                 | Inr s1 \<Rightarrow>
                     (let s2 = s1\<lparr>optimized_models :=
                            AList.update model_type opt_dir (optimized_models s1)\<rparr>
                      in if post_optimize a = ''eval_best''
                         then eval_best c s2 model_name opt_dir
                         else if post_optimize a = ''train_best''
                         then train_best c s2 model_name
                         else Inr s2))))"

definition run_model :: "collaborators \<Rightarrow> Experiments \<Rightarrow> fit_args \<Rightarrow> string \<Rightarrow> string
    \<Rightarrow> error + Experiments" where
  "run_model c self a model_type model_name =
     (case run_or_optimize c (self\<lparr>model_iter_metric := [], iter' := 0\<rparr>) a
             model_type model_name of
        Inl e \<Rightarrow> Inl e
      | Inr s3 \<Rightarrow>
          (case model' s3 of
             None \<Rightarrow> Inl ValueError
           | Some h \<Rightarrow>
               (let s4 = s3\<lparr>eval_models :=
                      AList.update model_type (path h) (eval_models s3)\<rparr>
                in case (if cross_validate a then
                           (case cross_val h (val_metric h) of
                              None \<Rightarrow> Inl AttributeError
                            | Some sc \<Rightarrow>
                                Inr (s4\<lparr>cv_scores' :=
                                         AList.update model_type sc (cv_scores' s4),
                                       cv_scoring := Some (val_metric h)\<rparr>))
                         else Inr s4) of
                     Inl e \<Rightarrow> Inl e
                   | Inr s5 \<Rightarrow>
                       Inr (s5\<lparr>iter_metrics :=
                              AList.update model_type (model_iter_metric s5)
                                (iter_metrics s5)\<rparr>))))"

text \<open>
  The loop \<^verbatim>\<open>for model_type in include\<close>; \<open>excl\<close> is the list \<^verbatim>\<open>exclude\<close> as
  the caller wrote it, against which the loop tests each model once more.
\<close>

fun fit_loop :: "collaborators \<Rightarrow> fit_args \<Rightarrow> string list \<Rightarrow> string list \<Rightarrow> Experiments
    \<Rightarrow> error + Experiments" where
  "fit_loop c a excl [] self = Inr self"
| "fit_loop c a excl (model_type # rest) self =
     (case split_second model_type ''model_'' of
        Inl e \<Rightarrow> Inl e
      | Inr model_name \<Rightarrow>
          if model_type \<notin> set excl then
            (case run_model c self a model_type model_name of
               Inl e \<Rightarrow> Inl e
             | Inr s \<Rightarrow> fit_loop c a excl rest s)
          else fit_loop c a excl rest self)"

text \<open>
  What \<^verbatim>\<open>fit\<close> does before the loop: the two assertions on its arguments, the
  list of included models, the list of excluded names, and the included models with
  the excluded ones removed. The collaborators take no part in it.
\<close>

definition fit_prepare :: "Experiments \<Rightarrow> fit_args \<Rightarrow> error + (string list \<times> string list)" where
  "fit_prepare self a =
     (if run_type a \<notin> set [''optimize'', ''dry_run''] then Inl AssertionError
      else if post_optimize a \<notin> set [''eval_best'', ''train_best''] then Inl AssertionError
      else
        (let exclude1 = (if f_exclude a = OneName '''' then Names [] else f_exclude a)
         in case check_include_arg self (f_include a) of
              Inl e \<Rightarrow> Inl e
            | Inr inc \<Rightarrow>
                (let excl = (case exclude1 of
                               NoNames \<Rightarrow> [] | OneName s \<Rightarrow> [s] | Names l \<Rightarrow> l)
                 in case consider_exclude (Names excl) (models self) (Some inc) of
                      Inl e \<Rightarrow> Inl e
                    | Inr None \<Rightarrow> Inr (inc, excl)
                    | Inr (Some inc') \<Rightarrow> Inr (inc', excl))))"

definition save :: "Experiments \<Rightarrow> Experiments" where
  "save self =
     self\<lparr>config_json :=
            Some \<lparr>c_models = models self, c_exp_path = exp_path self,
                  c_exp_name = exp_name self, c_cases = cases self,
                  c_eval_models = eval_models self,
                  c_optimized_models = optimized_models self\<rparr>,
          features_json := Some (features self),
          metrics_json := Some (metrics self)\<rparr>"

definition fit :: "collaborators \<Rightarrow> Experiments \<Rightarrow> fit_args \<Rightarrow> error + Experiments" where
  "fit c self a =
     (case fit_prepare self a of
        Inl e \<Rightarrow> Inl e
      | Inr (inc, excl) \<Rightarrow>
          (case fit_loop c a excl inc (reset self) of
             Inl e \<Rightarrow> Inl e
           | Inr s \<Rightarrow> Inr (save s)))"

subsection \<open>Sorting the models by a metric\<close>

text \<open>
  A row of the data frame: the model, its train value and its test value of the metric.
  A missing key is a KeyError.
\<close>

type_synonym row = "string \<times> pyfloat \<times> pyfloat"

fun metric_rows :: "metrics_table \<Rightarrow> string \<Rightarrow> error + row list" where
  "metric_rows [] metric_name = Inr []"
| "metric_rows ((k, v) # rest) metric_name =
     (case map_of v ''train'' of
        None \<Rightarrow> Inl KeyError
      | Some tr \<Rightarrow>
          (case map_of tr metric_name of
             None \<Rightarrow> Inl KeyError
           | Some x \<Rightarrow>
               (case map_of v ''test'' of
                  None \<Rightarrow> Inl KeyError
                | Some te \<Rightarrow>
                    (case map_of te metric_name of
                       None \<Rightarrow> Inl KeyError
                     | Some y \<Rightarrow>
                         (case metric_rows rest metric_name of
                            Inl e \<Rightarrow> Inl e
                          | Inr rs \<Rightarrow> Inr ((k, x, y) # rs))))))"

text \<open>The column named by \<^verbatim>\<open>sort_by\<close>; the frame has the columns train and test.\<close>

definition column :: "string \<Rightarrow> (row \<Rightarrow> pyfloat) option" where
  "column sort_by =
     (if sort_by = ''train'' then Some (\<lambda>(k, x, y). x)
      else if sort_by = ''test'' then Some (\<lambda>(k, x, y). y)
      else None)"

text \<open>
  \<^verbatim>\<open>sort_values(by=[sort_by], ascending=False)\<close>: descending, the rows without a
  number last. The order the library gives to rows with equal values is not fixed by
  it; the model keeps them in their order in the frame.
\<close>

definition goes_before :: "pyfloat \<Rightarrow> pyfloat \<Rightarrow> bool" where
  "goes_before a b = (\<not> isnan a \<and> (isnan b \<or> float_less b a))"

fun insert_desc :: "(row \<Rightarrow> pyfloat) \<Rightarrow> row \<Rightarrow> row list \<Rightarrow> row list" where
  "insert_desc key r [] = [r]"
| "insert_desc key r (y # ys) =
     (if goes_before (key y) (key r) then y # insert_desc key r ys else r # y # ys)"

definition sort_values_desc :: "(row \<Rightarrow> pyfloat) \<Rightarrow> row list \<Rightarrow> row list" where
  "sort_values_desc key rows = foldr (insert_desc key) rows []"

definition dropna :: "row list \<Rightarrow> row list" where
  "dropna rows = filter (\<lambda>(k, x, y). \<not> isnan x \<and> \<not> isnan y) rows"

definition sort_models_by_metric :: "Experiments \<Rightarrow> string \<Rightarrow> pyfloat option \<Rightarrow> string option
    \<Rightarrow> bool \<Rightarrow> string \<Rightarrow> error + row list" where
  "sort_models_by_metric self metric_name cutoff_val cutoff_type ignore_nans sort_by =
     (case metric_rows (metrics self) metric_name of
        Inl e \<Rightarrow> Inl e
      | Inr df \<Rightarrow>
          (let df1 = (if ignore_nans then dropna df else df)
           in case column sort_by of
                None \<Rightarrow> Inl KeyError
              | Some key \<Rightarrow>
                  (let df2 = sort_values_desc key df1
                   in case cutoff_type of
                        None \<Rightarrow> Inr df2
                      | Some ct \<Rightarrow>
                          (case cutoff_val of
                             None \<Rightarrow> Inl AssertionError
                           | Some cv \<Rightarrow>
                               if ct = ''greater''
                               then Inr (filter (\<lambda>r. float_greater (key r) cv) df2)
                               else Inr (filter (\<lambda>r. float_less (key r) cv) df2)))))"

subsection \<open>The shape of the metrics table\<close>

text \<open>
  The specification's layout of \<^verbatim>\<open>metrics.json\<close>, against which the table built by
  the code is compared: every entry maps exactly \<^verbatim>\<open>train\<close> and \<^verbatim>\<open>test\<close>, in
  that order, each to a dictionary whose keys are the monitored metrics.
\<close>

definition entry_ok_spec :: "string list \<Rightarrow> (string \<times> metric_dict) list \<Rightarrow> bool" where
  "entry_ok_spec mon e =
     (map fst e = [''train'', ''test''] \<and>
      list_all (\<lambda>(sp, d). fst ` set d = set mon) e)"

definition table_ok_spec :: "string list \<Rightarrow> metrics_table \<Rightarrow> bool" where
  "table_ok_spec mon tbl = list_all (\<lambda>(k, e). entry_ok_spec mon e) tbl"

text \<open>
  What a step of a run leaves as it is: the monitored metrics, the name of the
  experiment, the tables of \<^verbatim>\<open>fit\<close> itself; the metrics table only grows and keeps
  its shape.
\<close>

definition preserved :: "string list \<Rightarrow> Experiments \<Rightarrow> Experiments \<Rightarrow> bool" where
  "preserved mon s s' =
     (monitor s' = monitor s \<and> exp_name s' = exp_name s \<and>
      eval_models s' = eval_models s \<and> iter_metrics s' = iter_metrics s \<and>
      fst ` set (metrics s) \<subseteq> fst ` set (metrics s') \<and>
      (monitor s = Some mon \<longrightarrow> table_ok_spec mon (metrics s)
         \<longrightarrow> table_ok_spec mon (metrics s')))"

text \<open>
  When a run of a model enters it in the metrics table: a dry run, a search followed
  by \<^verbatim>\<open>train_best\<close>, or a search followed by \<^verbatim>\<open>eval_best\<close> whose directory
  holds no ranked checkpoint, or one whose name starts with \<^verbatim>\<open>1_\<close>. \<open>en\<close> is
  the name of the experiment.
\<close>

definition populates :: "collaborators \<Rightarrow> fit_args \<Rightarrow> string \<Rightarrow> string \<Rightarrow> bool" where
  "populates c a en model_name =
     (let best_models =
            clear_weights c (path_join (getcwd c) (''results'' @ SEP @ en @ SEP @ model_name))
      in run_type a = ''dry_run'' \<or> post_optimize a = ''train_best'' \<or>
         (post_optimize a = ''eval_best'' \<and>
          (best_models = [] \<or> list_ex (\<lambda>b. startswith (fst b) ''1_'') best_models)))"

section \<open>Concrete inputs\<close>

text \<open>
  A backend in which the library accepts bounds in increasing order, and the inputs at
  which the theorems below are evaluated. The numbers of the examples are small
  integers and halves, on which double-precision arithmetic is exact, so the example's
  rounding leaves every number as it is; the cast of a double outside the 32-bit range
  gives \<open>-2\<^sup>3\<^sup>1\<close>, and a Python integer outside it is refused. The library's part of an instance dictionary lists the
  attributes in the order in which the library's constructors set them; an attribute
  holding an object of the library is rendered as a string, for which the example
  writes the name of the object's class.
\<close>

definition example_backend :: backend where
  "example_backend =
     \<lparr>skopt_version = ''0.9.0'', Real_base_ok = (\<lambda>lo hi p. lo < hi),
      Integer_base_ok = (\<lambda>lo hi p. lo < hi),
      Real_base_dict = (\<lambda>lo hi p n.
        [(''low'', VFloat lo), (''high'', VFloat hi), (''prior'', VStr p),
         (''base'', VInt 10), (''log_base'', VFloat 1), (''_name'', VStr n),
         (''_rvs'', VStr ''rv_frozen''), (''transformer'', VStr ''Pipeline''),
         (''transform_'', VStr ''identity'')]),
      Integer_base_dict = (\<lambda>lo hi p n.
        [(''low'', VInt lo), (''high'', VInt hi), (''prior'', VStr p),
         (''base'', VInt 10), (''log_base'', VFloat 1), (''_name'', VStr n),
         (''_rvs'', VStr ''rv_frozen''), (''transformer'', VStr ''Pipeline''),
         (''transform_'', VStr ''identity'')]),
      Categorical_base_dict = (\<lambda>cs p n.
        [(''categories'', VList cs), (''_name'', opt_val VStr n),
         (''transform_'', VStr ''onehot''), (''transformer'', VStr ''CategoricalEncoder''),
         (''prior'', opt_val (\<lambda>ps. VList (map VFloat ps)) p),
         (''prior_'', (case p of
                         None \<Rightarrow> VList (map (\<lambda>c. VFloat (1 / real (length cs))) cs)
                       | Some ps \<Rightarrow> VList (map VFloat ps)))]),
      fl = (\<lambda>x. x),
      int32_overflow = (\<lambda>x. - (2 ^ 31)),
      int32_of_python = (\<lambda>x. Inl OverflowError)\<rparr>"

definition constructed_Real_grid :: "error + (classes \<times> Real) \<Rightarrow> real list option" where
  "constructed_Real_grid r = (case r of Inl e \<Rightarrow> None | Inr (cls, p) \<Rightarrow> Real.grid p)"

definition constructed_Integer_grid :: "error + (classes \<times> Integer) \<Rightarrow> int list option" where
  "constructed_Integer_grid r = (case r of Inl e \<Rightarrow> None | Inr (cls, p) \<Rightarrow> Integer.grid p)"

text \<open>\<^verbatim>\<open>Real(low=10, high=100, num_samples=0, step=20)\<close>\<close>

definition zero_samples_args :: Real_args where
  "zero_samples_args =
     \<lparr>a_low = Some 10, a_high = Some 100, a_num_samples = Some 0, a_step = Some 20,
      a_grid = None, a_name = None, a_prior = None\<rparr>"

text \<open>\<^verbatim>\<open>Real(low=10, high=100, num_samples=4, step=20)\<close>\<close>

definition four_samples_args :: Real_args where
  "four_samples_args =
     \<lparr>a_low = Some 10, a_high = Some 100, a_num_samples = Some 4, a_step = Some 20,
      a_grid = None, a_name = None, a_prior = None\<rparr>"

text \<open>\<^verbatim>\<open>Integer(low=10, high=20, num_samples=3)\<close>\<close>

definition three_samples_args :: Integer_args where
  "three_samples_args =
     \<lparr>i_low = Some 10, i_high = Some 20, i_num_samples = Some 3, i_step = None,
      i_grid = None, i_name = None, i_prior = None\<rparr>"

text \<open>\<^verbatim>\<open>Integer(low=0, high=2**31, num_samples=2)\<close>\<close>

definition wide_integer_args :: Integer_args where
  "wide_integer_args =
     \<lparr>i_low = Some 0, i_high = Some (2 ^ 31), i_num_samples = Some 2, i_step = None,
      i_grid = None, i_name = None, i_prior = None\<rparr>"

text \<open>\<^verbatim>\<open>Categorical(categories=['a', 'b'], name='c')\<close>\<close>

definition example_categorical :: Categorical where
  "example_categorical =
     \<lparr>categories = [VStr ''a'', VStr ''b''], prior = None, name = Some ''c''\<rparr>"

text \<open>Two constructor calls without a name, one with a name, and two of an integer.\<close>

definition unnamed_real_args :: Real_args where
  "unnamed_real_args =
     \<lparr>a_low = Some 0, a_high = Some 1, a_num_samples = None, a_step = None,
      a_grid = None, a_name = None, a_prior = None\<rparr>"

definition unnamed_integer_args :: Integer_args where
  "unnamed_integer_args =
     \<lparr>i_low = Some 1, i_high = Some 8, i_num_samples = None, i_step = None,
      i_grid = None, i_name = None, i_prior = None\<rparr>"

definition example_calls :: "ctor_call list" where
  "example_calls =
     [NewReal unnamed_real_args, NewReal unnamed_real_args,
      NewReal (unnamed_real_args\<lparr>a_name := Some ''lr''\<rparr>),
      NewInteger unnamed_integer_args, NewInteger unnamed_integer_args]"

definition constructed_names :: "error + (classes \<times> parameter list) \<Rightarrow> string option list" where
  "constructed_names r = (case r of Inl e \<Rightarrow> [] | Inr (cls, ps) \<Rightarrow> map parameter_name ps)"

definition constructed_classes :: "error + (classes \<times> parameter list) \<Rightarrow> classes option" where
  "constructed_classes r = (case r of Inl e \<Rightarrow> None | Inr (cls, ps) \<Rightarrow> Some cls)"

text \<open>
  The experiment as its constructor leaves it, with no keyword for the model, and one
  whose user has set a lookback space and passed a batch size.
\<close>

definition lookback_integer :: Integer where
  "lookback_integer =
     \<lparr>Integer.counter = 1, num_samples = None, step = None, low = 1, high = 100,
      prior = ''uniform'', name = ''lookback'', grid = None\<rparr>"

definition default_dl :: DLRegressionExperiments where
  "default_dl =
     \<lparr>lookback_space = AList [],
      batch_size_space =
        AParam (PCategorical
          \<lparr>categories = [VInt 4, VInt 8, VInt 12, VInt 16, VInt 32],
           prior = None, name = Some ''batch_size''\<rparr>),
      lr_space =
        AParam (PReal
          \<lparr>Real.counter = 1, num_samples = None, step = None, low = 1 / 100000,
           high = 5 / 1000, prior = ''uniform'', name = ''lr'', grid = None\<rparr>),
      model_kws = []\<rparr>"

text \<open>
  Collaborators for the examples. A model is built untrained, with the validation
  metric \<^verbatim>\<open>mse\<close> and a configuration that holds the keywords it was built from;
  it cannot predict before it is trained. Training gives it its predictions: one true
  value 1 and one predicted value \<open>1 / units\<close>, \<open>units\<close> being the hyperparameter
  of that name in its configuration (4 when there is none). A metric object answers
  the monitored metrics of its mode, and in regression \<^verbatim>\<open>nse_alpha\<close> as well (the
  ratio of the standard deviations of the predicted and of the true values, a metric of
  the library that is not monitored); it has no other attribute. So that the arrays of
  a handle choose the metric values, \<^verbatim>\<open>mse\<close> is the first predicted value,
  \<^verbatim>\<open>nse_alpha\<close> the second true value and every other metric the first true value
  (not a number where the array is too short). A builder
  method returns the configuration \<^verbatim>\<open>{'model': {name: parameters}}\<close>. The search
  backend proposes 4 units, then 8 units, until it has run the number of iterations
  asked for, and its best parameters are those of the trial with the lowest objective.
  There is no ranked checkpoint.
\<close>

definition nth_value :: "arr \<Rightarrow> nat \<Rightarrow> pyfloat" where
  "nth_value xs i = (if i < length xs then xs ! i else NaN)"

definition example_metrics :: "mode \<Rightarrow> results \<Rightarrow> string \<Rightarrow> pyfloat option" where
  "example_metrics md tp k =
     (if k = ''mse'' then Some (nth_value (snd tp) 0)
      else if k \<in> set (Monitor md) then Some (nth_value (fst tp) 0)
      else if md = Regression \<and> k = ''nse_alpha'' then Some (nth_value (fst tp) 1)
      else None)"

definition units_of :: "config \<Rightarrow> int" where
  "units_of cfg =
     (case map_of cfg ''model'' of
        Some (VDict [(k, VDict ps)]) \<Rightarrow>
          (case map_of ps ''units'' of Some (VInt n) \<Rightarrow> n | _ \<Rightarrow> 4)
      | _ \<Rightarrow> 4)"

definition learned :: "config \<Rightarrow> results" where
  "learned cfg = ([Finite 1], [Finite (1 / real_of_int (units_of cfg))])"

definition untrained :: "string \<Rightarrow> config \<Rightarrow> model_handle" where
  "untrained title cfg =
     \<lparr>path = ''/w/results/'' @ title, val_metric = ''mse'',
      config = (''val_metric'', VStr ''mse'') # cfg, is_multiclass = False,
      predict_validation = Inl ExternalError, predict_data = Inl ExternalError,
      predict_training = Inl ExternalError, cross_val = (\<lambda>k. None)\<rparr>"

definition trained :: "model_handle \<Rightarrow> model_handle" where
  "trained h =
     h\<lparr>predict_validation := Inr (learned (config h)),
       predict_data := Inr (learned (config h)),
       predict_training := Inr (learned (config h))\<rparr>"

definition lowest :: "(config \<times> pyfloat) list \<Rightarrow> config" where
  "lowest hist =
     (case hist of
        [] \<Rightarrow> []
      | x # xs \<Rightarrow> fst (fold (\<lambda>p b. if float_less (snd p) (snd b) then p else b) xs x))"

definition example_collaborators :: collaborators where
  "example_collaborators =
     \<lparr>Model = (\<lambda>title verb kws paras. Inr (untrained title (kws @ paras))),
      Model_fit = (\<lambda>h. Inr (trained h)),
      Model_cross_val_score = (\<lambda>h scoring. Inr (trained h)),
      Metrics = (\<lambda>md tp rz mc. example_metrics md tp),
      np_std = (\<lambda>a. Finite 0),
      clear_weights = (\<lambda>d. []),
      build_from_config = (\<lambda>p w. Inl ExternalError),
      model_method = (\<lambda>m paras. Inr [(''model'', VDict [(m, VDict paras)])]),
      suggest = (\<lambda>req hist.
                  if int (length hist) < num_iterations req
                  then Some [(''units'', VInt (if hist = [] then 4 else 8))]
                  else None),
      trial_budget = (\<lambda>req. nat (num_iterations req)),
      best_paras = lowest,
      getcwd = ''/w''\<rparr>"

text \<open>
  The same collaborators with one checkpoint in every search directory, under the
  given name, which \<^verbatim>\<open>build_from_config\<close> rebuilds without storing a model.
\<close>

definition checkpoint_collaborators :: "string \<Rightarrow> collaborators" where
  "checkpoint_collaborators md =
     example_collaborators
       \<lparr>clear_weights := (\<lambda>d. [(md, d @ ''/'' @ md, ''weights.hdf5'')]),
        build_from_config := (\<lambda>p w. Inr (None, learned [], learned []))\<rparr>"

text \<open>
  An experiment with the three builder methods \<^verbatim>\<open>model_A\<close>, \<^verbatim>\<open>model_B\<close> and
  \<^verbatim>\<open>model_C\<close>; the same experiment constructed with
  \<^verbatim>\<open>cases={'B': {'model': {'B': {'units': 16}}}}\<close>, a case named like one of the
  builder methods. A handle
  with a validation metric and the predictions of its validation, and an experiment in
  the middle of a trial, its model built and trained.
\<close>

definition example_experiment :: Experiments where
  "example_experiment =
     Experiments_init example_collaborators [''fit'', ''model_A'', ''model_B'', ''model_C'']
       Regression [] [] ''exp'' 1 None"

definition case_B_experiment :: Experiments where
  "case_B_experiment =
     Experiments_init example_collaborators [''fit'', ''model_A'', ''model_B'', ''model_C'']
       Regression [] [(''B'', [(''model'', VDict [(''B'', VDict [(''units'', VInt 16)])])])]
       ''exp'' 1 None"

definition example_handle :: "string \<Rightarrow> string \<Rightarrow> results \<Rightarrow> model_handle" where
  "example_handle vm cvm tp =
     \<lparr>path = ''/w/results/exp/A'', val_metric = vm, config = [(''val_metric'', VStr cvm)],
      is_multiclass = False, predict_validation = Inr tp, predict_data = Inr tp,
      predict_training = Inr tp, cross_val = (\<lambda>k. None)\<rparr>"

definition trial_state :: "Experiments \<Rightarrow> string \<Rightarrow> string \<Rightarrow> results \<Rightarrow> Experiments" where
  "trial_state e vm cvm tp = e\<lparr>model' := Some (example_handle vm cvm tp)\<rparr>"

text \<open>What a trial returns and what it leaves in the record of the iterations.\<close>

definition score_and_record :: "error + (pyfloat \<times> Experiments)
    \<Rightarrow> (pyfloat \<times> (nat \<times> metric_dict) list) option" where
  "score_and_record r =
     (case r of Inl e \<Rightarrow> None | Inr (v, s) \<Rightarrow> Some (v, model_iter_metric s))"

definition all_monitored :: "mode \<Rightarrow> pyfloat \<Rightarrow> pyfloat \<Rightarrow> metric_dict" where
  "all_monitored md t p = map (\<lambda>k. (k, if k = ''mse'' then p else t)) (Monitor md)"

text \<open>
  The example experiment after a search of two trials that left no checkpoint, and
  with two models in its metrics table.
\<close>

definition searched_experiment :: Experiments where
  "searched_experiment =
     example_experiment
       \<lparr>optimizer := Some [([(''units'', VInt 4)], Finite (1 / 4)),
                           ([(''units'', VInt 8)], Finite (1 / 8))]\<rparr>"

definition two_models :: Experiments where
  "two_models =
     example_experiment
       \<lparr>metrics :=
          [(''model_A'', [(''train'', [(''r2'', Finite (9 / 10))]),
                          (''test'', [(''r2'', Finite (1 / 2))])]),
           (''model_B'', [(''train'', [(''r2'', Finite (4 / 5))]),
                          (''test'', [(''r2'', Finite (7 / 10))])])]\<rparr>"

text \<open>
  The keys of the metrics table and of the saved file, the models that ran, and the
  model and the entry that a step leaves behind.
\<close>

definition metrics_keys :: "error + Experiments \<Rightarrow> string list option" where
  "metrics_keys r = (case r of Inl e \<Rightarrow> None | Inr s \<Rightarrow> Some (map fst (metrics s)))"

definition executed :: "error + Experiments \<Rightarrow> string list option" where
  "executed r = (case r of Inl e \<Rightarrow> None | Inr s \<Rightarrow> Some (map fst (eval_models s)))"



definition model_and_entry :: "error + Experiments \<Rightarrow> string
    \<Rightarrow> (model_handle option \<times> (string \<times> metric_dict) list option) option" where
  "model_and_entry r k =
     (case r of Inl e \<Rightarrow> None | Inr s \<Rightarrow> Some (model' s, map_of (metrics s) k))"

text \<open>
  \<^verbatim>\<open>fit(data, exclude=['B'])\<close>, \<^verbatim>\<open>fit(data, exclude=['Z'])\<close> and
  \<^verbatim>\<open>fit(data, run_type='optimize', opt_method='random', num_iterations=2,
  include=['A'])\<close>.
\<close>

definition dry_run_args :: "string list \<Rightarrow> fit_args" where
  "dry_run_args excl =
     \<lparr>run_type = ''dry_run'', f_opt_method = ''bayes'', f_num_iterations = 12,
      f_include = NoNames, f_exclude = Names excl, cross_validate = False,
      post_optimize = ''eval_best'', f_hpo_kws = []\<rparr>"


section \<open>Properties of the search space\<close>

lemma str_nat_digit: "n < 10 \<Longrightarrow> str_nat n = [digit n]"
  by (subst str_nat.simps) simp

lemma str_nat_one: "str_nat (Suc 0) = ''1''"
  by (simp add: str_nat_digit digit_def)

lemma length_linspace_values: "length (linspace_values be a b n) = n"
  by (simp add: linspace_values_def Let_def)

lemma length_linspace: "linspace be a b k = Inr g \<Longrightarrow> int (length g) = k"
  by (auto simp: linspace_def length_linspace_values split: if_splits)

lemma length_linspace_int: "linspace_int be a b k = Inr g \<Longrightarrow> int (length g) = k"
  by (auto simp: linspace_int_def dest: length_linspace split: sum.splits)

lemma last_linspace_values: "1 < n \<Longrightarrow> last (linspace_values be a b n) = fl be b"
  by (simp add: linspace_values_def Let_def)

lemma hd_linspace_values:
  assumes "1 < n" "fl be 0 = 0"
  shows "hd (linspace_values be a b n) = fl be (fl be a)"
proof -
  have u: "[0..<n] = 0 # [Suc 0..<n]"
    using assms(1) by (simp add: upt_conv_Cons)
  show ?thesis
    using assms by (simp add: linspace_values_def Let_def u)
qed

lemma linspace_ends:
  assumes "linspace be a b k = Inr g" "2 \<le> k"
  shows "last g = fl be b" and "fl be 0 = 0 \<Longrightarrow> hd g = fl be (fl be a)"
proof -
  from assms have g: "g = linspace_values be a b (nat k)" and n: "1 < nat k"
    by (auto simp: linspace_def split: if_splits)
  from g n show "last g = fl be b" by (simp add: last_linspace_values)
  from g n show "fl be 0 = 0 \<Longrightarrow> hd g = fl be (fl be a)"
    by (simp add: hd_linspace_values)
qed

lemma linspace_int_ends:
  assumes "linspace_int be a b k = Inr g" "2 \<le> k"
  shows "last g = floor_int32 be (fl be (real_of_int b))"
    and "fl be 0 = 0 \<Longrightarrow> hd g = floor_int32 be (fl be (fl be (real_of_int a)))"
proof -
  from assms(1) obtain ys where
    ys: "linspace be (real_of_int a) (real_of_int b) k = Inr ys" "g = map (floor_int32 be) ys"
    by (auto simp: linspace_int_def split: sum.splits)
  from length_linspace[OF ys(1)] assms(2) have ne: "ys \<noteq> []" by auto
  from linspace_ends(1)[OF ys(1) assms(2)] ne ys(2)
  show "last g = floor_int32 be (fl be (real_of_int b))"
    by (simp add: last_map)
  from linspace_ends(2)[OF ys(1) assms(2)] ne ys(2)
  show "fl be 0 = 0 \<Longrightarrow> hd g = floor_int32 be (fl be (fl be (real_of_int a)))"
    by (simp add: hd_map)
qed

lemma floor_int32_exact:
  "in_int32 b \<Longrightarrow> floor_int32 be (real_of_int b) = b"
  by (simp add: floor_int32_def)

lemma Real_init_fields:
  assumes "Real_init be cls a = Inr (cls', p)"
  shows "cls' = cls"
    and "Real.counter p = Real_counter cls + 1"
    and "a_name a = None \<Longrightarrow> Real.name p = ''real_'' @ str_nat (Real_counter cls + 1)"
    and "a_grid a = None \<Longrightarrow> a_num_samples a = Some k \<Longrightarrow> k \<noteq> 0 \<Longrightarrow>
           linspace be (Real.low p) (Real.high p) k = Inr (the (Real.grid p)) \<and>
           Real.grid p \<noteq> None"
    and "a_grid a = None \<Longrightarrow> a_num_samples a = Some 0 \<or> a_num_samples a = None \<Longrightarrow>
           Real.grid p = Real_grid_from_step be p \<and> Real.step p = a_step a"
  using assms
  by (auto simp: Real_init_def Let_def Real_grid_setter_def Real_grid_from_step_def
      split: sum.splits prod.splits option.splits if_splits)

lemma Integer_init_fields:
  assumes "Integer_init be cls a = Inr (cls', p)"
  shows "cls' = cls"
    and "Integer.counter p = Integer_counter cls + 1"
    and "i_name a = None \<Longrightarrow>
           Integer.name p = ''integer_'' @ str_nat (Integer_counter cls + 1)"
    and "i_grid a = None \<Longrightarrow> i_num_samples a = Some k \<Longrightarrow> k \<noteq> 0 \<Longrightarrow>
           linspace_int be (Integer.low p) (Integer.high p) k = Inr (the (Integer.grid p)) \<and>
           Integer.grid p \<noteq> None"
    and "i_grid a = None \<Longrightarrow> i_num_samples a = Some 0 \<or> i_num_samples a = None \<Longrightarrow>
           Integer_grid_from_step be p = Inr (Integer.grid p) \<and> Integer.step p = i_step a"
  using assms
  by (auto simp: Integer_init_def Let_def Integer_grid_setter_def Integer_grid_from_step_def
      split: sum.splits prod.splits option.splits if_splits)

lemma Real_init_four_samples:
  "Real_init example_backend initial_classes four_samples_args =
     Inr (initial_classes,
          \<lparr>Real.counter = 1, num_samples = Some 4, step = Some 20, low = 10, high = 100,
           prior = ''uniform'', name = ''real_1'', grid = Some [10, 40, 70, 100]\<rparr>)"
  by (simp add: four_samples_args_def Real_init_def example_backend_def
      initial_classes_def bounds_from_def check_prior_def base_prior_def Real_grid_setter_def
      linspace_def linspace_values_def str_nat_one eval_nat_numeral)

lemma Integer_init_three_samples:
  "Integer_init example_backend initial_classes three_samples_args =
     Inr (initial_classes,
          \<lparr>Integer.counter = 1, num_samples = Some 3, step = None, low = 10, high = 20,
           prior = ''uniform'', name = ''integer_1'', grid = Some [10, 15, 20]\<rparr>)"
  by (simp add: three_samples_args_def Integer_init_def example_backend_def
      initial_classes_def bounds_from_def check_prior_def base_prior_def
      Integer_grid_setter_def linspace_int_def linspace_def linspace_values_def
      floor_int32_def in_int32_def str_nat_one eval_nat_numeral)

lemma Integer_init_wide:
  "Integer_init example_backend initial_classes wide_integer_args =
     Inr (initial_classes,
          \<lparr>Integer.counter = 1, num_samples = Some 2, step = None, low = 0,
           high = 2147483648, prior = ''uniform'', name = ''integer_1'',
           grid = Some [0, - 2147483648]\<rparr>)"
  by (simp add: wide_integer_args_def Integer_init_def example_backend_def
      initial_classes_def bounds_from_def check_prior_def base_prior_def
      Integer_grid_setter_def linspace_int_def linspace_def linspace_values_def
      floor_int32_def in_int32_def str_nat_one eval_nat_numeral)

lemma Real_init_zero_samples:
  "Real_init example_backend initial_classes zero_samples_args =
     Inr (initial_classes,
          \<lparr>Real.counter = 1, num_samples = Some 0, step = Some 20, low = 10, high = 100,
           prior = ''uniform'', name = ''real_1'', grid = Some [10, 30, 50, 70, 90]\<rparr>)"
  by (simp add: zero_samples_args_def Real_init_def example_backend_def
      initial_classes_def bounds_from_def check_prior_def base_prior_def Real_grid_setter_def
      Real_grid_from_step_def arange_def str_nat_one eval_nat_numeral)

text \<open>
  C8, as the code has it. A \<^verbatim>\<open>Real\<close> or \<^verbatim>\<open>Integer\<close> constructed without an
  explicit grid and with \<^verbatim>\<open>num_samples = k\<close>, \<open>k\<close> not zero, has a grid of exactly
  \<open>k\<close> points, whatever \<^verbatim>\<open>step\<close> is: the points of \<^verbatim>\<open>linspace\<close> between
  \<^verbatim>\<open>low\<close> and \<^verbatim>\<open>high\<close>. Such a \<open>k\<close> is positive, since the constructor raises
  on a negative one. With at least two points the last one is \<^verbatim>\<open>high\<close> as a
  double and the first one \<^verbatim>\<open>low\<close> as a double; a point of an \<^verbatim>\<open>Integer\<close> is
  rounded down and cast to a 32-bit integer, so the last one is \<^verbatim>\<open>high\<close> itself
  when \<^verbatim>\<open>high\<close> is a double within the 32-bit range, and the first likewise.
  With \<^verbatim>\<open>num_samples = 0\<close>, as without \<^verbatim>\<open>num_samples\<close>, the grid is the one of
  the \<^verbatim>\<open>step\<close> branch: \<^verbatim>\<open>arange(low, high, step)\<close> for a non-zero step, no grid
  otherwise.
\<close>

theorem num_samples_grid_length:
  "(Real_init be cls a = Inr (cls', p) \<longrightarrow> a_grid a = None \<longrightarrow>
      (a_num_samples a = Some k \<longrightarrow> k \<noteq> 0 \<longrightarrow>
        (\<exists>g. Real.grid p = Some g \<and> int (length g) = k \<and> 1 \<le> k \<and>
             linspace be (Real.low p) (Real.high p) k = Inr g \<and>
             (2 \<le> k \<longrightarrow> last g = fl be (Real.high p)) \<and>
             (2 \<le> k \<longrightarrow> fl be 0 = 0 \<longrightarrow> hd g = fl be (fl be (Real.low p))))) \<and>
      (a_num_samples a = Some 0 \<or> a_num_samples a = None \<longrightarrow>
         Real.grid p = Real_grid_from_step be p \<and> Real.step p = a_step a))
   \<and> (Integer_init be cls b = Inr (cls'', q) \<longrightarrow> i_grid b = None \<longrightarrow>
      (i_num_samples b = Some k \<longrightarrow> k \<noteq> 0 \<longrightarrow>
        (\<exists>g. Integer.grid q = Some g \<and> int (length g) = k \<and> 1 \<le> k \<and>
             linspace_int be (Integer.low q) (Integer.high q) k = Inr g \<and>
             (2 \<le> k \<longrightarrow>
                last g = floor_int32 be (fl be (real_of_int (Integer.high q)))) \<and>
             (2 \<le> k \<longrightarrow> in_int32 (Integer.high q) \<longrightarrow>
                fl be (real_of_int (Integer.high q)) = real_of_int (Integer.high q) \<longrightarrow>
                last g = Integer.high q) \<and>
             (2 \<le> k \<longrightarrow> fl be 0 = 0 \<longrightarrow> in_int32 (Integer.low q) \<longrightarrow>
                fl be (real_of_int (Integer.low q)) = real_of_int (Integer.low q) \<longrightarrow>
                hd g = Integer.low q))) \<and>
      (i_num_samples b = Some 0 \<or> i_num_samples b = None \<longrightarrow>
         Integer_grid_from_step be q = Inr (Integer.grid q) \<and> Integer.step q = i_step b))"
proof (intro conjI impI)
  assume h: "Real_init be cls a = Inr (cls', p)" "a_grid a = None"
    "a_num_samples a = Some k" "k \<noteq> 0"
  from Real_init_fields(4)[OF h] obtain g where
    g: "Real.grid p = Some g" "linspace be (Real.low p) (Real.high p) k = Inr g"
    by auto
  from length_linspace[OF g(2)] have "int (length g) = k" .
  with g h(4) linspace_ends[OF g(2)]
  show "\<exists>g. Real.grid p = Some g \<and> int (length g) = k \<and> 1 \<le> k \<and>
           linspace be (Real.low p) (Real.high p) k = Inr g \<and>
           (2 \<le> k \<longrightarrow> last g = fl be (Real.high p)) \<and>
           (2 \<le> k \<longrightarrow> fl be 0 = 0 \<longrightarrow> hd g = fl be (fl be (Real.low p)))"
    by auto
next
  assume h: "Real_init be cls a = Inr (cls', p)" "a_grid a = None"
    "a_num_samples a = Some 0 \<or> a_num_samples a = None"
  from Real_init_fields(5)[OF h]
  show "Real.grid p = Real_grid_from_step be p" and "Real.step p = a_step a"
    by auto
next
  assume h: "Integer_init be cls b = Inr (cls'', q)" "i_grid b = None"
    "i_num_samples b = Some k" "k \<noteq> 0"
  from Integer_init_fields(4)[OF h] obtain g where
    g: "Integer.grid q = Some g" "linspace_int be (Integer.low q) (Integer.high q) k = Inr g"
    by auto
  from length_linspace_int[OF g(2)] have "int (length g) = k" .
  with g h(4) linspace_int_ends[OF g(2)]
  show "\<exists>g. Integer.grid q = Some g \<and> int (length g) = k \<and> 1 \<le> k \<and>
           linspace_int be (Integer.low q) (Integer.high q) k = Inr g \<and>
           (2 \<le> k \<longrightarrow>
              last g = floor_int32 be (fl be (real_of_int (Integer.high q)))) \<and>
           (2 \<le> k \<longrightarrow> in_int32 (Integer.high q) \<longrightarrow>
              fl be (real_of_int (Integer.high q)) = real_of_int (Integer.high q) \<longrightarrow>
              last g = Integer.high q) \<and>
           (2 \<le> k \<longrightarrow> fl be 0 = 0 \<longrightarrow> in_int32 (Integer.low q) \<longrightarrow>
              fl be (real_of_int (Integer.low q)) = real_of_int (Integer.low q) \<longrightarrow>
              hd g = Integer.low q)"
    by (auto simp: floor_int32_exact)
next
  assume h: "Integer_init be cls b = Inr (cls'', q)" "i_grid b = None"
    "i_num_samples b = Some 0 \<or> i_num_samples b = None"
  from Integer_init_fields(5)[OF h]
  show "Integer_grid_from_step be q = Inr (Integer.grid q)" and "Integer.step q = i_step b"
    by auto
qed

theorem num_samples_grid_length_witness:
  "(\<exists>g. constructed_Real_grid
           (Real_init example_backend initial_classes four_samples_args) = Some g \<and>
        int (length g) = 4 \<and> hd g = 10 \<and> last g = 100)
   \<and> (\<exists>g. constructed_Integer_grid
           (Integer_init example_backend initial_classes three_samples_args) = Some g \<and>
        int (length g) = 3 \<and> hd g = 10 \<and> last g = 20)
   \<and> (\<exists>g. constructed_Integer_grid
           (Integer_init example_backend initial_classes wide_integer_args) = Some g \<and>
        int (length g) = 2 \<and> hd g = 0 \<and> last g = - (2 ^ 31))
   \<and> constructed_Real_grid (Real_init example_backend initial_classes zero_samples_args)
       = Some (arange example_backend 10 100 20)"
proof -
  have r: "\<exists>g. Real.grid \<lparr>Real.counter = 1, num_samples = Some 4, step = Some 20,
                  low = 10, high = 100, prior = ''uniform'', name = ''real_1'',
                  grid = Some [10, 40, 70, 100]\<rparr> = Some g \<and>
               int (length g) = 4 \<and> hd g = 10 \<and> last g = 100"
    using num_samples_grid_length
      [THEN conjunct1, rule_format, THEN conjunct1, rule_format,
       OF Real_init_four_samples, of 4]
    by (simp add: four_samples_args_def example_backend_def)
  have i: "\<exists>g. Integer.grid \<lparr>Integer.counter = 1, num_samples = Some 3, step = None,
                  low = 10, high = 20, prior = ''uniform'', name = ''integer_1'',
                  grid = Some [10, 15, 20]\<rparr> = Some g \<and>
               int (length g) = 3 \<and> hd g = 10 \<and> last g = 20"
    using num_samples_grid_length
      [THEN conjunct2, rule_format, THEN conjunct1, rule_format,
       OF Integer_init_three_samples, of 3]
    by (simp add: three_samples_args_def example_backend_def in_int32_def)
  have w: "\<exists>g. Integer.grid \<lparr>Integer.counter = 1, num_samples = Some 2, step = None,
                  low = 0, high = 2147483648, prior = ''uniform'', name = ''integer_1'',
                  grid = Some [0, - 2147483648]\<rparr> = Some g \<and>
               int (length g) = 2 \<and> hd g = 0 \<and> last g = - (2 ^ 31)"
    using num_samples_grid_length
      [THEN conjunct2, rule_format, THEN conjunct1, rule_format,
       OF Integer_init_wide, of 2]
    by (simp add: wide_integer_args_def example_backend_def in_int32_def floor_int32_def)
  have z: "Real.grid \<lparr>Real.counter = 1, num_samples = Some 0, step = Some 20, low = 10,
                  high = 100, prior = ''uniform'', name = ''real_1'',
                  grid = Some [10, 30, 50, 70, 90]\<rparr> = Some (arange example_backend 10 100 20)"
    using num_samples_grid_length
      [THEN conjunct1, rule_format, THEN conjunct2, rule_format,
       OF Real_init_zero_samples]
    by (simp add: zero_samples_args_def Real_grid_from_step_def)
  from r i w z show ?thesis
    by (simp add: Real_init_four_samples Integer_init_three_samples Integer_init_wide
        Real_init_zero_samples constructed_Real_grid_def constructed_Integer_grid_def)
qed

text \<open>
  C8 as stated fails at \<open>k = 0\<close>: \<^verbatim>\<open>Real(low=10, high=100, num_samples=0, step=20)\<close>
  is constructed without an explicit grid and with \<^verbatim>\<open>num_samples = 0\<close>, and its grid
  is the five points of \<^verbatim>\<open>arange(10, 100, 20)\<close>: the truth test on
  \<^verbatim>\<open>num_samples\<close> sends a zero to the \<^verbatim>\<open>step\<close> branch.
\<close>

theorem zero_samples_counterexample:
  "a_num_samples zero_samples_args = Some 0 \<and> a_grid zero_samples_args = None \<and>
   constructed_Real_grid (Real_init example_backend initial_classes zero_samples_args)
     = Some [10, 30, 50, 70, 90] \<and>
   map_option length
     (constructed_Real_grid (Real_init example_backend initial_classes zero_samples_args))
     = Some 5"
  by (simp add: zero_samples_args_def constructed_Real_grid_def Real_init_def
      example_backend_def initial_classes_def bounds_from_def check_prior_def base_prior_def
      Real_grid_setter_def Real_grid_from_step_def arange_def str_nat_one eval_nat_numeral)

text \<open>
  The two constructors return the class attributes as they received them.
\<close>

lemma run_constructors_inv:
  "run_constructors be cls calls = Inr (cls', ps) \<Longrightarrow>
     cls' = cls \<and> length ps = length calls \<and>
     (\<forall>i < length calls. unnamed (calls ! i) \<longrightarrow>
        parameter_name (ps ! i) =
          Some (case calls ! i of
                  NewReal a \<Rightarrow> ''real_'' @ str_nat (Real_counter cls + 1)
                | NewInteger a \<Rightarrow> ''integer_'' @ str_nat (Integer_counter cls + 1)))"
proof (induction calls arbitrary: cls ps)
  case Nil
  then show ?case by simp
next
  case (Cons c cs)
  show ?case
  proof (cases c)
    case (NewReal a)
    with Cons.prems obtain c1 p where i: "Real_init be cls a = Inr (c1, p)"
      by (auto split: sum.splits)
    with Cons.prems NewReal obtain ps' where
      r: "run_constructors be c1 cs = Inr (cls', ps')" "ps = PReal p # ps'"
      by (auto split: sum.splits prod.splits)
    from Real_init_fields[OF i] have c1: "c1 = cls"
      and nm: "a_name a = None \<Longrightarrow>
                 Real.name p = ''real_'' @ str_nat (Real_counter cls + 1)"
      by auto
    from Cons.IH[OF r(1)] c1 r(2) NewReal nm show ?thesis
      by (auto simp: nth_Cons split: nat.splits)
  next
    case (NewInteger a)
    with Cons.prems obtain c1 p where i: "Integer_init be cls a = Inr (c1, p)"
      by (auto split: sum.splits)
    with Cons.prems NewInteger obtain ps' where
      r: "run_constructors be c1 cs = Inr (cls', ps')" "ps = PInteger p # ps'"
      by (auto split: sum.splits prod.splits)
    from Integer_init_fields[OF i] have c1: "c1 = cls"
      and nm: "i_name a = None \<Longrightarrow>
                 Integer.name p = ''integer_'' @ str_nat (Integer_counter cls + 1)"
      by auto
    from Cons.IH[OF r(1)] c1 r(2) NewInteger nm show ?thesis
      by (auto simp: nth_Cons split: nat.splits)
  qed
qed

text \<open>
  C10. In a process whose class counters start at 0, after any sequence of constructor
  calls that all return, the class counters are still 0, and every parameter made by a
  call without a name is called \<^verbatim>\<open>real_1\<close> (a \<^verbatim>\<open>Real\<close>) or \<^verbatim>\<open>integer_1\<close>
  (an \<^verbatim>\<open>Integer\<close>), wherever the call stands in the sequence. Hence two parameters
  of one kind made without a name have the same name.
\<close>

theorem auto_name_never_advances:
  assumes "run_constructors be initial_classes calls = Inr (cls', ps)"
  shows "cls' = initial_classes \<and> length ps = length calls \<and>
         (\<forall>i < length calls. unnamed (calls ! i) \<longrightarrow>
            parameter_name (ps ! i) = Some (auto_name (calls ! i))) \<and>
         (\<forall>i < length calls. \<forall>j < length calls.
            unnamed (calls ! i) \<longrightarrow> unnamed (calls ! j) \<longrightarrow>
            auto_name (calls ! i) = auto_name (calls ! j) \<longrightarrow>
            parameter_name (ps ! i) = parameter_name (ps ! j))"
proof -
  from run_constructors_inv[OF assms]
  have a: "cls' = initial_classes" "length ps = length calls"
    and b: "\<forall>i < length calls. unnamed (calls ! i) \<longrightarrow>
              parameter_name (ps ! i) = Some (auto_name (calls ! i))"
    by (auto simp: initial_classes_def str_nat_one split: ctor_call.splits)
  from b have "\<forall>i < length calls. \<forall>j < length calls.
            unnamed (calls ! i) \<longrightarrow> unnamed (calls ! j) \<longrightarrow>
            auto_name (calls ! i) = auto_name (calls ! j) \<longrightarrow>
            parameter_name (ps ! i) = parameter_name (ps ! j)"
    by simp
  with a b show ?thesis by blast
qed

lemma run_example_calls:
  "run_constructors example_backend initial_classes example_calls =
     Inr (initial_classes,
          [PReal \<lparr>Real.counter = 1, num_samples = None, step = None, low = 0, high = 1,
                  prior = ''uniform'', name = ''real_1'', grid = None\<rparr>,
           PReal \<lparr>Real.counter = 1, num_samples = None, step = None, low = 0, high = 1,
                  prior = ''uniform'', name = ''real_1'', grid = None\<rparr>,
           PReal \<lparr>Real.counter = 1, num_samples = None, step = None, low = 0, high = 1,
                  prior = ''uniform'', name = ''lr'', grid = None\<rparr>,
           PInteger \<lparr>Integer.counter = 1, num_samples = None, step = None, low = 1,
                  high = 8, prior = ''uniform'', name = ''integer_1'', grid = None\<rparr>,
           PInteger \<lparr>Integer.counter = 1, num_samples = None, step = None, low = 1,
                  high = 8, prior = ''uniform'', name = ''integer_1'', grid = None\<rparr>])"
  by (simp add: example_calls_def unnamed_real_args_def unnamed_integer_args_def
      Real_init_def Integer_init_def example_backend_def initial_classes_def bounds_from_def
      check_prior_def base_prior_def Real_grid_setter_def Integer_grid_setter_def
      Real_grid_from_step_def Integer_grid_from_step_def str_nat_one)

theorem auto_name_never_advances_witness:
  "constructed_classes (run_constructors example_backend initial_classes example_calls)
     = Some initial_classes \<and>
   constructed_names (run_constructors example_backend initial_classes example_calls)
     = [Some ''real_1'', Some ''real_1'', Some ''lr'', Some ''integer_1'',
        Some ''integer_1'']"
  using auto_name_never_advances[OF run_example_calls]
  by (simp add: run_example_calls constructed_classes_def constructed_names_def)

text \<open>
  C5 at \<^verbatim>\<open>Categorical(categories=['a', 'b'], name='c')\<close>: the serialized dictionary
  carries the type tag \<^verbatim>\<open>'Integer'\<close>, the tag of another kind of parameter, as
  the serialized dictionary of every \<^verbatim>\<open>Categorical\<close> does, where
  \<^verbatim>\<open>Real.serialize\<close> and \<^verbatim>\<open>Integer.serialize\<close> write their own.
\<close>

theorem Categorical_serialize_type_tag:
  "Categorical_serialize example_backend example_categorical =
     [(''categories'', VList [VStr ''a'', VStr ''b'']), (''_name'', VStr ''c''),
      (''transform_'', VStr ''onehot''), (''transformer'', VStr ''CategoricalEncoder''),
      (''prior'', VStr ''None''), (''prior_'', VList [VFloat (1 / 2), VFloat (1 / 2)]),
      (''type'', VStr ''Integer'')]
   \<and> map_of (Categorical_serialize be c) ''type'' = Some (VStr ''Integer'')
   \<and> map_of (Integer_serialize be i) ''type'' = Some (VStr ''Integer'')
   \<and> map_of (Real_serialize be r) ''type'' = Some (VStr ''Real'')"
  by (simp add: Categorical_serialize_def example_categorical_def example_backend_def
      opt_val_def dict_update_def Integer_serialize_def Real_serialize_def update_conv')

section \<open>Properties of the static parameters\<close>

text \<open>
  C9. The static default point and the static search space are the two columns of one
  table: the enabled static parameters, in the order lookback, batch size, learning
  rate, each with the user's keyword if there is one and the documented default (5, 32,
  0.001) if not. So the two lists always have the same length, and without any keyword
  the default point is the list of documented defaults of the enabled parameters.
\<close>

theorem static_x0_matches_static_space:
  "length (static_x0 e) = length (static_space e) \<and>
   static_space e = map fst (enabled_spec e) \<and>
   static_x0 e = map (\<lambda>(sp, k, d). dict_get (DLRegressionExperiments.model_kws e) k d) (enabled_spec e) \<and>
   (map_of (DLRegressionExperiments.model_kws e) ''lookback'' = None \<longrightarrow>
    map_of (DLRegressionExperiments.model_kws e) ''batch_size'' = None \<longrightarrow>
    map_of (DLRegressionExperiments.model_kws e) ''lr'' = None \<longrightarrow>
      static_x0 e = map (\<lambda>(sp, k, d). d) (enabled_spec e))"
  by (simp add: static_x0_def static_space_def enabled_spec_def static_table_spec_def
      dict_get_def)

lemma default_dl_init:
  "DLRegressionExperiments_init example_backend initial_classes [] =
     Inr (initial_classes, default_dl)"
  by (simp add: DLRegressionExperiments_init_def default_dl_def Real_init_def
      example_backend_def initial_classes_def bounds_from_def check_prior_def base_prior_def
      Real_grid_setter_def Real_grid_from_step_def)

theorem static_x0_matches_static_space_witness:
  "static_x0 default_dl = [VInt 32, VFloat (1 / 1000)] \<and>
   length (static_space default_dl) = 2 \<and>
   static_x0 (default_dl\<lparr>lookback_space := AList [PInteger lookback_integer],
                         DLRegressionExperiments.model_kws := [(''batch_size'', VInt 16)]\<rparr>)
     = [VInt 5, VInt 16, VFloat (1 / 1000)]"
  using static_x0_matches_static_space[of default_dl]
    static_x0_matches_static_space
      [of "default_dl\<lparr>lookback_space := AList [PInteger lookback_integer],
                      DLRegressionExperiments.model_kws := [(''batch_size'', VInt 16)]\<rparr>"]
  by (simp add: default_dl_def enabled_spec_def static_table_spec_def dict_get_def)

section \<open>Properties of a trial\<close>

lemma monitor_loop_map_of:
  "monitor_loop m ks acc = Inr d \<Longrightarrow>
     map_of d k = (if k \<in> set ks then m k else map_of acc k)"
proof (induction ks arbitrary: acc)
  case Nil
  then show ?case by simp
next
  case (Cons a ks)
  then obtain v where v: "m a = Some v" "monitor_loop m ks (AList.update a v acc) = Inr d"
    by (auto split: option.splits)
  from Cons.IH[OF v(2)] v(1) show ?case
    by (auto simp: update_conv')
qed

lemma monitor_loop_keys:
  "monitor_loop m ks acc = Inr d \<Longrightarrow> fst ` set d = fst ` set acc \<union> set ks"
proof (induction ks arbitrary: acc)
  case Nil
  then show ?case by simp
next
  case (Cons a ks)
  then obtain v where v: "m a = Some v" "monitor_loop m ks (AList.update a v acc) = Inr d"
    by (auto split: option.splits)
  from Cons.IH[OF v(2)] show ?case
    by (auto simp: dom_update)
qed

lemma isfinite_finite_or_sentinel: "isfinite (finite_or_sentinel x)"
  by (cases x) (simp_all add: finite_or_sentinel_def)

lemma evaluate_cases:
  assumes "evaluate c self = Inr (v, self')"
  obtains h tp mon rec x vm where
    "model' self = Some h" "predict_validation h = Inr tp" "monitor self = Some mon"
    "monitor_loop (Metrics c (mode self) tp True (is_multiclass h)) mon [] = Inr rec"
    "Metrics c (mode self) tp True (is_multiclass h) (val_metric h) = Some x"
    "map_of (config h) ''val_metric'' = Some vm"
    "v = finite_or_sentinel (oriented vm x)"
    "self' = self\<lparr>model_iter_metric :=
                      AList.update (iter' self) rec (model_iter_metric self),
                   iter' := iter' self + 1\<rparr>"
  using assms
  by (auto simp: evaluate_def config_val_metric_def Let_def split: option.splits sum.splits)

lemma evaluate_example:
  "score_and_record
     (evaluate example_collaborators (trial_state example_experiment vm cvm ([t], [p]))) =
     (if vm \<in> set (Monitor Regression)
      then Some (finite_or_sentinel
                   (if cvm \<in> set larger_is_better
                    then one_minus (if vm = ''mse'' then p else t)
                    else (if vm = ''mse'' then p else t)),
                 [(0, all_monitored Regression t p)])
      else if vm = ''nse_alpha''
      then Some (Finite 9999, [(0, all_monitored Regression t p)])
      else None)"
  by (simp add: finite_or_sentinel_def score_and_record_def evaluate_def trial_state_def example_experiment_def
      Experiments_init_def example_collaborators_def example_metrics_def example_handle_def
      Monitor_def config_val_metric_def nth_value_def oriented_def larger_is_better_def
      Let_def all_monitored_def)

lemma evaluate_unmonitored_example:
  "score_and_record
     (evaluate example_collaborators
        (trial_state example_experiment ''nse_alpha'' ''nse_alpha'' ([t, u], [p]))) =
     Some (finite_or_sentinel u, [(0, all_monitored Regression t p)])"
  by (simp add: score_and_record_def evaluate_def trial_state_def
      example_experiment_def Experiments_init_def example_collaborators_def
      example_metrics_def example_handle_def Monitor_def config_val_metric_def
      nth_value_def oriented_def larger_is_better_def Let_def all_monitored_def)

text \<open>
  C1, as the code has it. A trial that returns gives the search backend a finite
  objective: the oriented score of the validation metric when that is finite, and 9999
  when it is not (which is exactly when the raw metric value is not finite). The record
  of its iteration, under the iteration index the experiment had before the trial,
  holds the raw value of every monitored metric, with nothing substituted, and of no
  other metric; the raw value of the validation metric is in it when the validation
  metric is one of the monitored metrics.
\<close>

theorem evaluate_finite_and_recorded:
  assumes "evaluate c self = Inr (v, self')"
  shows "isfinite v \<and>
    (\<exists>h tp mon rec x vm.
       model' self = Some h \<and> predict_validation h = Inr tp \<and> monitor self = Some mon \<and>
       Metrics c (mode self) tp True (is_multiclass h) (val_metric h) = Some x \<and>
       map_of (config h) ''val_metric'' = Some vm \<and>
       (isfinite (oriented vm x) \<longrightarrow> v = oriented vm x) \<and>
       (\<not> isfinite (oriented vm x) \<longrightarrow> v = Finite 9999) \<and>
       (isfinite (oriented vm x) \<longleftrightarrow> isfinite x) \<and>
       map_of (model_iter_metric self') (iter' self) = Some rec \<and>
       iter' self' = iter' self + 1 \<and>
       fst ` set rec = set mon \<and>
       (\<forall>k \<in> set mon. map_of rec k = Metrics c (mode self) tp True (is_multiclass h) k) \<and>
       (val_metric h \<in> set mon \<longrightarrow> map_of rec (val_metric h) = Some x))"
proof -
  from assms obtain h tp mon rec x vm where e:
    "model' self = Some h" "predict_validation h = Inr tp" "monitor self = Some mon"
    "monitor_loop (Metrics c (mode self) tp True (is_multiclass h)) mon [] = Inr rec"
    "Metrics c (mode self) tp True (is_multiclass h) (val_metric h) = Some x"
    "map_of (config h) ''val_metric'' = Some vm"
    "v = finite_or_sentinel (oriented vm x)"
    "self' = self\<lparr>model_iter_metric :=
                      AList.update (iter' self) rec (model_iter_metric self),
                   iter' := iter' self + 1\<rparr>"
    by (rule evaluate_cases)
  have fin: "isfinite v" using e(7) by (simp add: isfinite_finite_or_sentinel)
  have ori: "isfinite (oriented vm x) \<longleftrightarrow> isfinite x"
    by (cases x) (simp_all add: oriented_def)
  have rec: "map_of (model_iter_metric self') (iter' self) = Some rec"
    "iter' self' = iter' self + 1"
    using e(8) by (simp_all add: update_conv')
  have keys: "fst ` set rec = set mon" using monitor_loop_keys[OF e(4)] by simp
  have vals: "\<forall>k \<in> set mon. map_of rec k = Metrics c (mode self) tp True (is_multiclass h) k"
    using monitor_loop_map_of[OF e(4)] by simp
  show ?thesis
    apply (rule conjI[OF fin])
    apply (rule exI[of _ h], rule exI[of _ tp], rule exI[of _ mon], rule exI[of _ rec],
        rule exI[of _ x], rule exI[of _ vm])
    using e(1,2,3,5,6,7) ori rec keys vals
    by (simp add: finite_or_sentinel_def)
qed

text \<open>
  At a trial whose validation metric \<^verbatim>\<open>nse\<close> is minus infinity: 9999 is returned and
  the value minus infinity is in the record.
\<close>

theorem evaluate_finite_and_recorded_witness:
  "score_and_record
     (evaluate example_collaborators
        (trial_state example_experiment ''nse'' ''nse'' ([NegInf], [Finite (1 / 4)])))
     = Some (Finite 9999, [(0, all_monitored Regression NegInf (Finite (1 / 4)))])
   \<and> map_of (all_monitored Regression NegInf (Finite (1 / 4))) ''nse'' = Some NegInf"
proof -
  have r: "score_and_record
             (evaluate example_collaborators
                (trial_state example_experiment ''nse'' ''nse'' ([NegInf], [Finite (1 / 4)])))
           = Some (Finite 9999, [(0, all_monitored Regression NegInf (Finite (1 / 4)))])"
    by (simp add: evaluate_example Monitor_def larger_is_better_def finite_or_sentinel_def)
  then obtain v s where e:
    "evaluate example_collaborators
       (trial_state example_experiment ''nse'' ''nse'' ([NegInf], [Finite (1 / 4)]))
     = Inr (v, s)"
    by (auto simp: score_and_record_def split: sum.splits)
  from evaluate_finite_and_recorded[OF e] have "isfinite v" by simp
  with r show ?thesis
    by (simp add: all_monitored_def Monitor_def)
qed

text \<open>
  C1 as stated fails at a trial of a regression experiment whose validation metric is
  \<^verbatim>\<open>nse_alpha\<close>, a metric of the regression metrics of the library that is not
  among the thirteen monitored metrics: its value is infinite, 9999 is returned, and
  the record of the iteration holds the monitored metrics, all finite, and no entry for
  \<^verbatim>\<open>nse_alpha\<close>.
\<close>

theorem unmonitored_metric_counterexample:
  "Metrics example_collaborators Regression ([Finite 1, PosInf], [Finite (1 / 4)])
     True False ''nse_alpha'' = Some PosInf
   \<and> ''nse_alpha'' \<notin> set (Monitor Regression)
   \<and> score_and_record
       (evaluate example_collaborators
          (trial_state example_experiment ''nse_alpha'' ''nse_alpha''
             ([Finite 1, PosInf], [Finite (1 / 4)])))
     = Some (Finite 9999, [(0, all_monitored Regression (Finite 1) (Finite (1 / 4)))])
   \<and> map_of (all_monitored Regression (Finite 1) (Finite (1 / 4))) ''nse_alpha'' = None
   \<and> list_all isfinite (map snd (all_monitored Regression (Finite 1) (Finite (1 / 4))))"
proof -
  have "Metrics example_collaborators Regression ([Finite 1, PosInf], [Finite (1 / 4)])
          True False ''nse_alpha'' = Some PosInf"
    by (simp add: example_collaborators_def example_metrics_def nth_value_def Monitor_def)
  then show ?thesis
    by (simp add: evaluate_unmonitored_example finite_or_sentinel_def all_monitored_def
        Monitor_def)
qed



section \<open>Properties of a run\<close>

lemma preserved_refl: "preserved mon s s"
  by (simp add: preserved_def)

lemma preserved_trans: "preserved mon s t \<Longrightarrow> preserved mon t u \<Longrightarrow> preserved mon s u"
  by (auto simp: preserved_def)

lemma table_ok_update:
  "table_ok_spec mon tbl \<Longrightarrow> entry_ok_spec mon e \<Longrightarrow>
     table_ok_spec mon (AList.update k e tbl)"
  by (induction tbl) (auto simp: table_ok_spec_def)


lemma build_preserved: "build c s t k = Inr s' \<Longrightarrow> preserved mon s s'"
  by (auto simp: build_def Let_def preserved_def split: sum.splits)

lemma fit_model_preserved: "fit_model c s cv = Inr s' \<Longrightarrow> preserved mon s s'"
  by (auto simp: fit_model_def preserved_def split: sum.splits option.splits if_splits)

lemma evaluate_preserved: "evaluate c s = Inr (v, s') \<Longrightarrow> preserved mon s s'"
  by (erule evaluate_cases) (simp add: preserved_def)

lemma populate_results_cases:
  assumes "populate_results c s mt tr te = Inr s'"
  obtains h mon trm tem where
    "model' s = Some h" "monitor s = Some mon"
    "monitor_loop (Metrics c (mode s) tr False (is_multiclass h)) mon [] = Inr trm"
    "monitor_loop (Metrics c (mode s) te False (is_multiclass h)) mon [] = Inr tem"
    "metrics s' = AList.update (with_prefix mt) [(''train'', trm), (''test'', tem)] (metrics s)"
    "monitor s' = monitor s" "exp_name s' = exp_name s" "eval_models s' = eval_models s"
    "iter_metrics s' = iter_metrics s"
  using assms
  by (auto simp: populate_results_def Let_def with_prefix_def
      split: sum.splits option.splits)

lemma populate_results_entry:
  assumes "populate_results c s mt tr te = Inr s'"
  shows "\<exists>mon trm tem. monitor s = Some mon \<and>
           map_of (metrics s') (with_prefix mt) = Some [(''train'', trm), (''test'', tem)] \<and>
           fst ` set trm = set mon \<and> fst ` set tem = set mon"
proof -
  from assms obtain h mon trm tem where e:
    "model' s = Some h" "monitor s = Some mon"
    "monitor_loop (Metrics c (mode s) tr False (is_multiclass h)) mon [] = Inr trm"
    "monitor_loop (Metrics c (mode s) te False (is_multiclass h)) mon [] = Inr tem"
    "metrics s' = AList.update (with_prefix mt) [(''train'', trm), (''test'', tem)] (metrics s)"
    "monitor s' = monitor s" "exp_name s' = exp_name s" "eval_models s' = eval_models s"
    "iter_metrics s' = iter_metrics s"
    by (rule populate_results_cases)
  from monitor_loop_keys[OF e(3)] monitor_loop_keys[OF e(4)] e(2,5) show ?thesis
    by (simp add: update_conv')
qed

lemma populate_results_preserved:
  assumes "populate_results c s mt tr te = Inr s'"
  shows "preserved mon s s'"
proof -
  from assms obtain h mon' trm tem where e:
    "model' s = Some h" "monitor s = Some mon'"
    "monitor_loop (Metrics c (mode s) tr False (is_multiclass h)) mon' [] = Inr trm"
    "monitor_loop (Metrics c (mode s) te False (is_multiclass h)) mon' [] = Inr tem"
    "metrics s' = AList.update (with_prefix mt) [(''train'', trm), (''test'', tem)] (metrics s)"
    "monitor s' = monitor s" "exp_name s' = exp_name s" "eval_models s' = eval_models s"
    "iter_metrics s' = iter_metrics s"
    by (rule populate_results_cases)
  have ok: "entry_ok_spec mon' [(''train'', trm), (''test'', tem)]"
    using monitor_loop_keys[OF e(3)] monitor_loop_keys[OF e(4)]
    by (simp add: entry_ok_spec_def)
  show ?thesis
    using e(2,5-9) ok
    by (auto simp: preserved_def dom_update intro: table_ok_update)
qed

lemma populate_results_key:
  "populate_results c s mt tr te = Inr s' \<Longrightarrow> with_prefix mt \<in> fst ` set (metrics s')"
  by (erule populate_results_cases) (simp add: dom_update)

lemma build_and_run_preserved:
  assumes "build_and_run c s p cv t k = Inr (r, s')"
  shows "preserved mon s s'"
proof -
  from assms obtain s1 s2 where b: "build c s t k = Inr s1" "fit_model c s1 cv = Inr s2"
    by (auto simp: build_and_run_def split: sum.splits)
  have p12: "preserved mon s s2"
    using preserved_trans[OF build_preserved[OF b(1)] fit_model_preserved[OF b(2)]] .
  show ?thesis
  proof (cases p)
    case True
    with assms b have "s' = s2"
      by (auto simp: build_and_run_def split: sum.splits)
    with p12 show ?thesis by simp
  next
    case False
    with assms b obtain v where "evaluate c s2 = Inr (v, s')"
      by (auto simp: build_and_run_def split: sum.splits)
    from preserved_trans[OF p12 evaluate_preserved[OF this]] show ?thesis .
  qed
qed

lemma cases_update_preserved: "preserved mon s (s\<lparr>cases := x\<rparr>)"
  by (simp add: preserved_def)

lemma objective_fn_preserved:
  assumes "objective_fn c s mt nm p cv paras = Inr (r, s')"
  shows "preserved mon s s'"
  using assms
  by (auto simp: objective_fn_def Let_def
      split: option.splits sum.splits if_splits
      intro: preserved_trans[OF cases_update_preserved build_and_run_preserved]
        build_and_run_preserved)

lemma search_loop_preserved:
  "search_loop c req nm cv n s hist = Inr (s', hist') \<Longrightarrow> preserved mon s s'"
proof (induction n arbitrary: s hist)
  case 0
  then show ?case by (simp add: preserved_refl)
next
  case (Suc n)
  show ?case
  proof (cases "suggest c req hist")
    case None
    with Suc.prems show ?thesis by (simp add: preserved_refl)
  next
    case (Some paras)
    with Suc.prems obtain v s1 where
      o: "objective_fn c s (variant req) nm False cv paras = Inr (Score v, s1)"
      and r: "search_loop c req nm cv n s1 (hist @ [(paras, v)]) = Inr (s', hist')"
      by (auto split: sum.splits run_result.splits)
    from preserved_trans[OF objective_fn_preserved[OF o] Suc.IH[OF r]] show ?thesis .
  qed
qed

lemma optimizer_update_preserved: "preserved mon s t \<Longrightarrow> preserved mon s (t\<lparr>optimizer := x\<rparr>)"
  by (simp add: preserved_def)

lemma hyperopt_fit_preserved:
  "hyperopt_fit c req nm cv s = Inr s' \<Longrightarrow> preserved mon s s'"
  by (auto simp: hyperopt_fit_def split: sum.splits
      intro: optimizer_update_preserved search_loop_preserved)

lemma train_best_cases:
  assumes "train_best c s mt = Inr s'"
  obtains hist b train test s1 where
    "optimizer s = Some hist" "lookback_gt_one (best_paras c hist) = Inr b"
    "build_and_run c s True False (exp_name s @ SEP @ mt @ SEP @ ''best'')
       [(''model'', VDict [(if b then ''layers'' else mt, VDict (best_paras c hist))])]
     = Inr (Predictions train test, s1)"
    "populate_results c s1 mt train test = Inr s'"
  using assms
  by (auto simp: train_best_def Let_def split: option.splits sum.splits run_result.splits)

lemma train_best_preserved:
  assumes "train_best c s mt = Inr s'"
  shows "preserved mon s s'" and "with_prefix mt \<in> fst ` set (metrics s')"
proof -
  from assms obtain r k t train test s1 where
    b: "build_and_run c s True False t k = Inr (Predictions train test, s1)"
    and p: "populate_results c s1 mt train test = Inr s'"
    by (rule train_best_cases)
  from preserved_trans[OF build_and_run_preserved[OF b] populate_results_preserved[OF p]]
  show "preserved mon s s'" .
  from populate_results_key[OF p] show "with_prefix mt \<in> fst ` set (metrics s')" .
qed

lemma model_update_preserved: "preserved mon s (s\<lparr>model' := x\<rparr>)"
  by (simp add: preserved_def)

lemma eval_best_loop_preserved:
  "eval_best_loop c s mt bs = Inr s' \<Longrightarrow> preserved mon s s'"
proof (induction bs arbitrary: s)
  case Nil
  then show ?case by (simp add: preserved_refl)
next
  case (Cons b bs)
  obtain md dir w where b: "b = (md, dir, w)" by (cases b) auto
  with Cons.prems obtain h tr te where
    f: "build_from_config c (path_join dir ''config.json'') w = Inr (h, tr, te)"
    by (auto split: sum.splits)
  define s1 where "s1 = (case h of None \<Rightarrow> s | Some h' \<Rightarrow> s\<lparr>model' := Some h'\<rparr>)"
  have p1: "preserved mon s s1"
    by (simp add: s1_def preserved_refl model_update_preserved split: option.splits)
  show ?case
  proof (cases "startswith md ''1_''")
    case True
    with Cons.prems b f obtain s2 where
      p: "populate_results c s1 mt tr te = Inr s2" and r: "eval_best_loop c s2 mt bs = Inr s'"
      by (auto simp: s1_def split: sum.splits)
    from preserved_trans[OF p1 preserved_trans[OF populate_results_preserved[OF p] Cons.IH[OF r]]]
    show ?thesis .
  next
    case False
    with Cons.prems b f have r: "eval_best_loop c s1 mt bs = Inr s'"
      by (auto simp: s1_def)
    from preserved_trans[OF p1 Cons.IH[OF r]] show ?thesis .
  qed
qed

lemma eval_best_preserved:
  "eval_best c s mt d = Inr s' \<Longrightarrow> preserved mon s s'"
  by (auto simp: eval_best_def Let_def split: if_splits
      intro: train_best_preserved eval_best_loop_preserved)

lemma build_and_run_predict_cases:
  assumes "build_and_run c s True False t k = Inr (r, s')"
  obtains h h' train test where
    "Model c t (dict_get (model_kws s) ''verbosity'' (VInt (max (verbosity s - 1) 0)))
       (AList.delete ''verbosity'' (model_kws s)) k = Inr h"
    "Model_fit c h = Inr h'"
    "predict_data h' = Inr test" "predict_training h' = Inr train"
    "r = Predictions train test"
    "s' = s\<lparr>model_kws := AList.delete ''verbosity'' (model_kws s), model' := Some h'\<rparr>"
  using assms
  by (auto simp: build_and_run_def build_def fit_model_def predict_def Let_def
      split: sum.splits option.splits)

text \<open>
  C7. When the search directory holds no ranked checkpoint, \<^verbatim>\<open>eval_best\<close> is
  \<^verbatim>\<open>train_best\<close>. If it returns, then the model class was called with the best
  parameters of the search (under the key \<^verbatim>\<open>layers\<close> when the best lookback
  exceeds 1, under the name of the model otherwise), the model it built was trained,
  the trained model is the model of the experiment, and the entry of the model in the
  metrics table holds, for every monitored metric, its value on the predictions of the
  trained model.
\<close>

theorem eval_best_falls_back:
  assumes "clear_weights c opt_dir = []"
  shows "eval_best c self mt opt_dir = train_best c self mt \<and>
    (\<forall>s'. eval_best c self mt opt_dir = Inr s' \<longrightarrow>
       (\<exists>hist b h h' train test mon trm tem.
          optimizer self = Some hist \<and> lookback_gt_one (best_paras c hist) = Inr b \<and>
          Model c (exp_name self @ SEP @ mt @ SEP @ ''best'')
            (dict_get (model_kws self) ''verbosity'' (VInt (max (verbosity self - 1) 0)))
            (AList.delete ''verbosity'' (model_kws self))
            [(''model'',
              VDict [(if b then ''layers'' else mt, VDict (best_paras c hist))])]
            = Inr h \<and>
          Model_fit c h = Inr h' \<and>
          predict_data h' = Inr test \<and> predict_training h' = Inr train \<and>
          model' s' = Some h' \<and>
          monitor self = Some mon \<and>
          metrics s' = AList.update (with_prefix mt) [(''train'', trm), (''test'', tem)]
                         (metrics self) \<and>
          fst ` set trm = set mon \<and> fst ` set tem = set mon \<and>
          (\<forall>k \<in> set mon.
             map_of trm k = Metrics c (mode self) train False (is_multiclass h') k \<and>
             map_of tem k = Metrics c (mode self) test False (is_multiclass h') k)))"
proof -
  have eq: "eval_best c self mt opt_dir = train_best c self mt"
    using assms by (simp add: eval_best_def)
  have "\<exists>hist b h h' train test mon trm tem.
          optimizer self = Some hist \<and> lookback_gt_one (best_paras c hist) = Inr b \<and>
          Model c (exp_name self @ SEP @ mt @ SEP @ ''best'')
            (dict_get (model_kws self) ''verbosity'' (VInt (max (verbosity self - 1) 0)))
            (AList.delete ''verbosity'' (model_kws self))
            [(''model'',
              VDict [(if b then ''layers'' else mt, VDict (best_paras c hist))])]
            = Inr h \<and>
          Model_fit c h = Inr h' \<and>
          predict_data h' = Inr test \<and> predict_training h' = Inr train \<and>
          model' s' = Some h' \<and>
          monitor self = Some mon \<and>
          metrics s' = AList.update (with_prefix mt) [(''train'', trm), (''test'', tem)]
                         (metrics self) \<and>
          fst ` set trm = set mon \<and> fst ` set tem = set mon \<and>
          (\<forall>k \<in> set mon.
             map_of trm k = Metrics c (mode self) train False (is_multiclass h') k \<and>
             map_of tem k = Metrics c (mode self) test False (is_multiclass h') k)"
    if tb: "train_best c self mt = Inr s'" for s'
  proof -
    from tb obtain hist b train test s1 where t:
      "optimizer self = Some hist" "lookback_gt_one (best_paras c hist) = Inr b"
      "build_and_run c self True False (exp_name self @ SEP @ mt @ SEP @ ''best'')
         [(''model'', VDict [(if b then ''layers'' else mt, VDict (best_paras c hist))])]
       = Inr (Predictions train test, s1)"
      "populate_results c s1 mt train test = Inr s'"
      by (rule train_best_cases)
    from t(3) obtain h h' train' test' where r:
      "Model c (exp_name self @ SEP @ mt @ SEP @ ''best'')
         (dict_get (model_kws self) ''verbosity'' (VInt (max (verbosity self - 1) 0)))
         (AList.delete ''verbosity'' (model_kws self))
         [(''model'', VDict [(if b then ''layers'' else mt, VDict (best_paras c hist))])]
       = Inr h"
      "Model_fit c h = Inr h'"
      "predict_data h' = Inr test'" "predict_training h' = Inr train'"
      "Predictions train test = Predictions train' test'"
      "s1 = self\<lparr>model_kws := AList.delete ''verbosity'' (model_kws self),
                  model' := Some h'\<rparr>"
      by (rule build_and_run_predict_cases)
    from r(5) have tt: "train' = train" "test' = test" by simp_all
    from t(4) obtain h1 mon trm tem where p:
      "model' s1 = Some h1" "monitor s1 = Some mon"
      "monitor_loop (Metrics c (mode s1) train False (is_multiclass h1)) mon [] = Inr trm"
      "monitor_loop (Metrics c (mode s1) test False (is_multiclass h1)) mon [] = Inr tem"
      "metrics s' = AList.update (with_prefix mt) [(''train'', trm), (''test'', tem)]
                      (metrics s1)"
      "model' s' = model' s1"
      by (auto simp: populate_results_def Let_def with_prefix_def
          split: sum.splits option.splits)
    from p(1) r(6) have h1: "h1 = h'" by simp
    have s1: "monitor s1 = monitor self" "mode s1 = mode self" "metrics s1 = metrics self"
      using r(6) by simp_all
    have k1: "fst ` set trm = set mon" "fst ` set tem = set mon"
      using monitor_loop_keys[OF p(3)] monitor_loop_keys[OF p(4)] by simp_all
    have v: "\<forall>k \<in> set mon.
             map_of trm k = Metrics c (mode self) train False (is_multiclass h') k \<and>
             map_of tem k = Metrics c (mode self) test False (is_multiclass h') k"
      using monitor_loop_map_of[OF p(3)] monitor_loop_map_of[OF p(4)] h1 s1(2) by simp
    have m: "model' s' = Some h'" using p(6) p(1) h1 by simp
    have mo: "monitor self = Some mon" using p(2) s1(1) by simp
    have me: "metrics s' = AList.update (with_prefix mt) [(''train'', trm), (''test'', tem)]
                         (metrics self)"
      using p(5) s1(3) by simp
    show ?thesis
      apply (rule exI[of _ hist], rule exI[of _ b], rule exI[of _ h], rule exI[of _ h'],
          rule exI[of _ train], rule exI[of _ test], rule exI[of _ mon],
          rule exI[of _ trm], rule exI[of _ tem])
      using t(1,2) r(1,2,3,4) tt m mo me k1 v by simp
  qed
  with eq show ?thesis by simp
qed

text \<open>
  After a search of two trials, with 4 units (objective 1/4) and with 8 units (objective
  1/8), and no ranked checkpoint: the model of the experiment is the model built with
  8 units and trained, and the entry of the model A holds the metrics of its
  predictions.
\<close>

lemma train_best_example:
  "model_and_entry (train_best example_collaborators searched_experiment ''A'') ''model_A''
     = Some (Some (trained (untrained ''exp/A/best''
                      [(''model'', VDict [(''A'', VDict [(''units'', VInt 8)])])])),
             Some [(''train'', all_monitored Regression (Finite 1) (Finite (1 / 8))),
                   (''test'', all_monitored Regression (Finite 1) (Finite (1 / 8)))])"
  by (simp add: model_and_entry_def train_best_def searched_experiment_def
      example_experiment_def Experiments_init_def example_collaborators_def
      example_metrics_def lowest_def trained_def untrained_def learned_def units_of_def
      lookback_gt_one_def dict_get_def build_and_run_def build_def
      fit_model_def predict_def populate_results_def Monitor_def nth_value_def
      all_monitored_def Let_def path_join_def SEP_def)

theorem eval_best_falls_back_witness:
  "best_paras example_collaborators
     [([(''units'', VInt 4)], Finite (1 / 4)), ([(''units'', VInt 8)], Finite (1 / 8))]
     = [(''units'', VInt 8)]
   \<and> model_and_entry
       (eval_best example_collaborators searched_experiment ''A'' ''/w/results/exp/A'')
       ''model_A''
     = Some (Some (trained (untrained ''exp/A/best''
                      [(''model'', VDict [(''A'', VDict [(''units'', VInt 8)])])])),
             Some [(''train'', all_monitored Regression (Finite 1) (Finite (1 / 8))),
                   (''test'', all_monitored Regression (Finite 1) (Finite (1 / 8)))])
   \<and> predict_data (untrained ''exp/A/best''
                      [(''model'', VDict [(''A'', VDict [(''units'', VInt 8)])])])
     = Inl ExternalError"
proof -
  have "clear_weights example_collaborators ''/w/results/exp/A'' = []"
    by (simp add: example_collaborators_def)
  from eval_best_falls_back[OF this, of searched_experiment "''A''"] train_best_example
  show ?thesis
    by (simp add: example_collaborators_def lowest_def untrained_def)
qed

text \<open>
  C6 at a table of two models with the test values 0.5 and 0.7 of \<^verbatim>\<open>r2\<close>: without
  a cutoff both models are returned, in descending order; with the cutoff type
  \<^verbatim>\<open>greater\<close> and the cutoff 0.5 only the model above 0.5; with
  \<^verbatim>\<open>greater_equal\<close> and the same cutoff no model at all, since every cutoff type
  other than \<^verbatim>\<open>greater\<close> keeps the rows strictly below the cutoff; and with
  \<^verbatim>\<open>less_equal\<close> the model at 0.5 is dropped.
\<close>

theorem sort_models_cutoff_types:
  "sort_models_by_metric two_models ''r2'' None None True ''test''
     = Inr [(''model_B'', Finite (4 / 5), Finite (7 / 10)),
            (''model_A'', Finite (9 / 10), Finite (1 / 2))]
   \<and> sort_models_by_metric two_models ''r2'' (Some (Finite (1 / 2))) (Some ''greater'')
       True ''test''
     = Inr [(''model_B'', Finite (4 / 5), Finite (7 / 10))]
   \<and> sort_models_by_metric two_models ''r2'' (Some (Finite (1 / 2)))
       (Some ''greater_equal'') True ''test''
     = Inr []
   \<and> sort_models_by_metric two_models ''r2'' (Some (Finite (1 / 2)))
       (Some ''less_equal'') True ''test''
     = Inr []"
  by (simp add: sort_models_by_metric_def two_models_def column_def dropna_def
      sort_values_desc_def goes_before_def float_greater_def Let_def)

lemma optimized_update_preserved:
  "preserved mon s t \<Longrightarrow> preserved mon s (t\<lparr>optimized_models := x\<rparr>)"
  by (simp add: preserved_def)

lemma preserved_key:
  "preserved mon s t \<Longrightarrow> k \<in> fst ` set (metrics s) \<Longrightarrow> k \<in> fst ` set (metrics t)"
  by (auto simp: preserved_def)

lemma eval_best_loop_key:
  "eval_best_loop c s mt bs = Inr s' \<Longrightarrow>
     list_ex (\<lambda>b. startswith (fst b) ''1_'') bs \<Longrightarrow>
     with_prefix mt \<in> fst ` set (metrics s')"
proof (induction bs arbitrary: s)
  case Nil
  then show ?case by simp
next
  case (Cons b bs)
  obtain md dir w where b: "b = (md, dir, w)" by (cases b) auto
  with Cons.prems obtain h tr te where
    f: "build_from_config c (path_join dir ''config.json'') w = Inr (h, tr, te)"
    by (auto split: sum.splits)
  define s1 where "s1 = (case h of None \<Rightarrow> s | Some h' \<Rightarrow> s\<lparr>model' := Some h'\<rparr>)"
  show ?case
  proof (cases "startswith md ''1_''")
    case True
    with Cons.prems b f obtain s2 where
      p: "populate_results c s1 mt tr te = Inr s2" and r: "eval_best_loop c s2 mt bs = Inr s'"
      by (auto simp: s1_def split: sum.splits)
    from preserved_key[OF eval_best_loop_preserved[OF r, of "[]"] populate_results_key[OF p]]
    show ?thesis .
  next
    case False
    with Cons.prems b f have r: "eval_best_loop c s1 mt bs = Inr s'"
      and l: "list_ex (\<lambda>b. startswith (fst b) ''1_'') bs"
      by (auto simp: s1_def)
    from Cons.IH[OF r l] show ?thesis .
  qed
qed

lemma eval_best_key:
  "eval_best c s mt d = Inr s' \<Longrightarrow>
     clear_weights c d = [] \<or> list_ex (\<lambda>b. startswith (fst b) ''1_'') (clear_weights c d) \<Longrightarrow>
     with_prefix mt \<in> fst ` set (metrics s')"
  by (auto simp: eval_best_def Let_def train_best_preserved(2) eval_best_loop_key
      split: if_splits)

lemma run_or_optimize_preserved:
  assumes "run_or_optimize c s a mt nm = Inr s'"
  shows "preserved mon s s'"
proof (cases "run_type a = ''dry_run''")
  case True
  with assms obtain tr te s1 where
    o: "objective_fn c s mt nm True (cross_validate a) [] = Inr (Predictions tr te, s1)"
    and p: "populate_results c s1 nm tr te = Inr s'"
    by (auto simp: run_or_optimize_def split: sum.splits run_result.splits)
  from preserved_trans[OF objective_fn_preserved[OF o] populate_results_preserved[OF p]]
  show ?thesis .
next
  case False
  define od where "od = path_join (getcwd c) (''results'' @ SEP @ exp_name s @ SEP @ nm)"
  from False assms obtain s1 where
    h: "hyperopt_fit c \<lparr>opt_method = f_opt_method a, num_iterations = f_num_iterations a,
          variant = mt, hpo_kws = f_hpo_kws a\<rparr> nm (cross_validate a) s = Inr s1"
    and r: "(if post_optimize a = ''eval_best''
             then eval_best c (s1\<lparr>optimized_models := AList.update mt od (optimized_models s1)\<rparr>) nm od
             else if post_optimize a = ''train_best''
             then train_best c (s1\<lparr>optimized_models := AList.update mt od (optimized_models s1)\<rparr>) nm
             else Inr (s1\<lparr>optimized_models := AList.update mt od (optimized_models s1)\<rparr>)) = Inr s'"
    by (auto simp: run_or_optimize_def Let_def od_def split: sum.splits if_splits)
  have p2: "preserved mon s (s1\<lparr>optimized_models := AList.update mt od (optimized_models s1)\<rparr>)"
    by (rule optimized_update_preserved[OF hyperopt_fit_preserved[OF h]])
  from r show ?thesis
    by (auto split: if_splits
        intro: preserved_trans[OF p2 eval_best_preserved] preserved_trans[OF p2 train_best_preserved(1)] p2)
qed

lemma run_or_optimize_key:
  assumes "run_or_optimize c s a mt nm = Inr s'" "populates c a (exp_name s) nm"
    "post_optimize a \<in> set [''eval_best'', ''train_best'']"
  shows "with_prefix nm \<in> fst ` set (metrics s')"
proof (cases "run_type a = ''dry_run''")
  case True
  with assms obtain tr te s1 where
    p: "populate_results c s1 nm tr te = Inr s'"
    by (auto simp: run_or_optimize_def split: sum.splits run_result.splits)
  from populate_results_key[OF p] show ?thesis .
next
  case False
  define od where "od = path_join (getcwd c) (''results'' @ SEP @ exp_name s @ SEP @ nm)"
  from False assms obtain s1 where
    r: "(if post_optimize a = ''eval_best''
             then eval_best c (s1\<lparr>optimized_models := AList.update mt od (optimized_models s1)\<rparr>) nm od
             else if post_optimize a = ''train_best''
             then train_best c (s1\<lparr>optimized_models := AList.update mt od (optimized_models s1)\<rparr>) nm
             else Inr (s1\<lparr>optimized_models := AList.update mt od (optimized_models s1)\<rparr>)) = Inr s'"
    by (auto simp: run_or_optimize_def Let_def od_def split: sum.splits if_splits)
  from False assms(2) have c: "post_optimize a = ''eval_best'' \<Longrightarrow>
      clear_weights c od = [] \<or>
      list_ex (\<lambda>b. startswith (fst b) ''1_'') (clear_weights c od)"
    by (auto simp: populates_def Let_def od_def)
  from r assms(3) c show ?thesis
    by (auto split: if_splits intro: eval_best_key train_best_preserved(2))
qed

lemma run_model_cases:
  assumes "run_model c s a mt nm = Inr s'"
  obtains s3 h where
    "run_or_optimize c (s\<lparr>model_iter_metric := [], iter' := 0\<rparr>) a mt nm = Inr s3"
    "model' s3 = Some h"
    "eval_models s' = AList.update mt (path h) (eval_models s3)"
    "iter_metrics s' = AList.update mt (model_iter_metric s3) (iter_metrics s3)"
    "metrics s' = metrics s3" "monitor s' = monitor s3" "exp_name s' = exp_name s3"
  using assms
  by (auto simp: run_model_def Let_def split: sum.splits option.splits if_splits)

lemma fit_loop_inv:
  "fit_loop c a excl inc s = Inr s' \<Longrightarrow>
     monitor s' = monitor s \<and> exp_name s' = exp_name s \<and>
     fst ` set (eval_models s') = fst ` set (eval_models s) \<union> (set inc - set excl) \<and>
     fst ` set (iter_metrics s') = fst ` set (iter_metrics s) \<union> (set inc - set excl) \<and>
     fst ` set (metrics s) \<subseteq> fst ` set (metrics s') \<and>
     (monitor s = Some mon \<longrightarrow> table_ok_spec mon (metrics s) \<longrightarrow>
        table_ok_spec mon (metrics s')) \<and>
     (post_optimize a \<in> set [''eval_best'', ''train_best''] \<longrightarrow>
        (\<forall>mt \<in> set inc - set excl. \<forall>nm. split_second mt ''model_'' = Inr nm \<longrightarrow>
           populates c a (exp_name s) nm \<longrightarrow> with_prefix nm \<in> fst ` set (metrics s')))"
proof (induction inc arbitrary: s)
  case Nil
  then show ?case by simp
next
  case (Cons m inc)
  from Cons.prems obtain nm0 where nm0: "split_second m ''model_'' = Inr nm0"
    by (auto split: sum.splits)
  show ?case
  proof (cases "m \<in> set excl")
    case True
    with Cons.prems nm0 have "fit_loop c a excl inc s = Inr s'" by simp
    from Cons.IH[OF this] True show ?thesis by auto
  next
    case False
    with Cons.prems nm0 obtain s1 where
      r: "run_model c s a m nm0 = Inr s1" and l: "fit_loop c a excl inc s1 = Inr s'"
      by (auto split: sum.splits)
    from r obtain s3 h where e:
      "run_or_optimize c (s\<lparr>model_iter_metric := [], iter' := 0\<rparr>) a m nm0 = Inr s3"
      "model' s3 = Some h"
      "eval_models s1 = AList.update m (path h) (eval_models s3)"
      "iter_metrics s1 = AList.update m (model_iter_metric s3) (iter_metrics s3)"
      "metrics s1 = metrics s3" "monitor s1 = monitor s3" "exp_name s1 = exp_name s3"
      by (rule run_model_cases)
    have p: "preserved mon (s\<lparr>model_iter_metric := [], iter' := 0\<rparr>) s3"
      by (rule run_or_optimize_preserved[OF e(1)])
    have k: "post_optimize a \<in> set [''eval_best'', ''train_best''] \<Longrightarrow>
             populates c a (exp_name s) nm0 \<Longrightarrow> with_prefix nm0 \<in> fst ` set (metrics s3)"
      using run_or_optimize_key[OF e(1)] by simp
    have s1: "monitor s1 = monitor s" "exp_name s1 = exp_name s"
      "fst ` set (eval_models s1) = insert m (fst ` set (eval_models s))"
      "fst ` set (iter_metrics s1) = insert m (fst ` set (iter_metrics s))"
      "fst ` set (metrics s) \<subseteq> fst ` set (metrics s1)"
      "monitor s = Some mon \<Longrightarrow> table_ok_spec mon (metrics s) \<Longrightarrow> table_ok_spec mon (metrics s1)"
      using p e(3-7) by (auto simp: preserved_def dom_update)
    from Cons.IH[OF l] have ih:
      "monitor s' = monitor s1" "exp_name s' = exp_name s1"
      "fst ` set (eval_models s') = fst ` set (eval_models s1) \<union> (set inc - set excl)"
      "fst ` set (iter_metrics s') = fst ` set (iter_metrics s1) \<union> (set inc - set excl)"
      "fst ` set (metrics s1) \<subseteq> fst ` set (metrics s')"
      "monitor s1 = Some mon \<Longrightarrow> table_ok_spec mon (metrics s1) \<Longrightarrow> table_ok_spec mon (metrics s')"
      "post_optimize a \<in> set [''eval_best'', ''train_best''] \<Longrightarrow>
        (\<forall>mt \<in> set inc - set excl. \<forall>nm. split_second mt ''model_'' = Inr nm \<longrightarrow>
           populates c a (exp_name s1) nm \<longrightarrow> with_prefix nm \<in> fst ` set (metrics s'))"
      by auto
    have key: "post_optimize a \<in> set [''eval_best'', ''train_best''] \<Longrightarrow>
        (\<forall>mt \<in> set (m # inc) - set excl. \<forall>nm. split_second mt ''model_'' = Inr nm \<longrightarrow>
           populates c a (exp_name s) nm \<longrightarrow> with_prefix nm \<in> fst ` set (metrics s'))"
    proof (intro ballI allI impI)
      fix mt nm
      assume po: "post_optimize a \<in> set [''eval_best'', ''train_best'']"
        and mt: "mt \<in> set (m # inc) - set excl"
        and sp: "split_second mt ''model_'' = Inr nm"
        and pp: "populates c a (exp_name s) nm"
      show "with_prefix nm \<in> fst ` set (metrics s')"
      proof (cases "mt = m")
        case True
        with sp nm0 have "nm = nm0" by simp
        with k[OF po] pp e(5) ih(5) show ?thesis by auto
      next
        case False
        with mt have "mt \<in> set inc - set excl" by auto
        with ih(7)[OF po] sp pp s1(2) show ?thesis by auto
      qed
    qed
    have c1: "monitor s' = monitor s" using s1(1) ih(1) by simp
    have c2: "exp_name s' = exp_name s" using s1(2) ih(2) by simp
    have c3: "fst ` set (eval_models s') =
                fst ` set (eval_models s) \<union> (set (m # inc) - set excl)"
      using s1(3) ih(3) False by auto
    have c4: "fst ` set (iter_metrics s') =
                fst ` set (iter_metrics s) \<union> (set (m # inc) - set excl)"
      using s1(4) ih(4) False by auto
    have c5: "fst ` set (metrics s) \<subseteq> fst ` set (metrics s')"
      using s1(5) ih(5) by (rule subset_trans)
    have c6: "monitor s = Some mon \<longrightarrow> table_ok_spec mon (metrics s) \<longrightarrow>
                table_ok_spec mon (metrics s')"
      using s1(1,6) ih(6) by simp
    have c7: "post_optimize a \<in> set [''eval_best'', ''train_best''] \<longrightarrow>
        (\<forall>mt \<in> set (m # inc) - set excl. \<forall>nm. split_second mt ''model_'' = Inr nm \<longrightarrow>
           populates c a (exp_name s) nm \<longrightarrow> with_prefix nm \<in> fst ` set (metrics s'))"
      using key by blast
    show ?thesis
      by (intro conjI; fact)
  qed
qed

section \<open>Properties of \<^verbatim>\<open>fit\<close>\<close>

lemmas example_defs =
  example_experiment_def case_B_experiment_def Experiments_init_def
  example_collaborators_def checkpoint_collaborators_def example_metrics_def
  untrained_def trained_def learned_def units_of_def lowest_def
  Monitor_def nth_value_def path_join_def SEP_def with_prefix_def

lemmas fit_defs =
  fit_def fit_prepare_def check_include_arg_def consider_exclude_def reset_def save_def
  split_second_def run_model_def run_or_optimize_def objective_fn_def build_and_run_def
  build_def fit_model_def predict_def populate_results_def dict_get_def dict_update_def
  Let_def

lemma exclude_loop_unknown:
  "e \<in> set es \<Longrightarrow> e \<notin> set ms \<Longrightarrow> exclude_loop es ms tf = Inl AssertionError"
proof (induction es arbitrary: tf)
  case Nil
  then show ?case by simp
next
  case (Cons x es)
  then show ?case
    by (cases tf) auto
qed

lemma check_include_arg_error:
  "check_include_arg s i = Inl e \<Longrightarrow> e = AssertionError"
  by (auto simp: check_include_arg_def Let_def split: if_splits)

lemma fit_prepare_unknown_exclude:
  assumes "f_exclude a = Names l" "n \<in> set l" "with_prefix n \<notin> set (models s)"
  shows "fit_prepare s a = Inl AssertionError"
proof -
  have "exclude_loop (map with_prefix l) (models s) tf = Inl AssertionError" for tf
    using assms(2,3) by (intro exclude_loop_unknown[of "with_prefix n"]) auto
  with assms(1) show ?thesis
    by (auto simp: fit_prepare_def Let_def consider_exclude_def
        split: sum.splits dest: check_include_arg_error)
qed

lemma fit_prepare_exclude_B:
  assumes "models s = [''model_A'', ''model_B'', ''model_C'']" "f_include a = NoNames"
    "f_exclude a = Names [''B'']" "fit_prepare s a = Inr (inc, excl)"
  shows "inc = [''model_A'', ''model_C''] \<and> excl = [''B'']"
  using assms
  by (auto simp: fit_prepare_def Let_def check_include_arg_def consider_exclude_def
      with_prefix_def split: if_splits)

lemma fit_cases:
  assumes "fit c s a = Inr s'"
  obtains inc excl s1 where "fit_prepare s a = Inr (inc, excl)"
    "fit_loop c a excl inc (reset s) = Inr s1" "s' = save s1"
  using assms by (auto simp: fit_def split: sum.splits)


text \<open>
  On the models A, B and C, each once in the list of models, with nothing said about
  \<^verbatim>\<open>include\<close> and with \<^verbatim>\<open>exclude=['B']\<close>, a call of \<^verbatim>\<open>fit\<close> that returns has
  run exactly A and C: they are the models with an evaluation path and an iteration
  history. And when the list \<^verbatim>\<open>exclude\<close> holds a name that, with its prefix, is not
  a model, \<^verbatim>\<open>fit\<close> raises AssertionError in the part that precedes its loop,
  whatever the collaborators are: no model is built.
\<close>

lemma exclude_of_three_and_unknown:
  "(models self = [''model_A'', ''model_B'', ''model_C''] \<longrightarrow> f_include a = NoNames \<longrightarrow>
      f_exclude a = Names [''B''] \<longrightarrow> fit c self a = Inr s' \<longrightarrow>
      fst ` set (eval_models s') = {''model_A'', ''model_C''} \<and>
      fst ` set (iter_metrics s') = {''model_A'', ''model_C''})
   \<and> (f_exclude a = Names l \<longrightarrow> n \<in> set l \<longrightarrow> with_prefix n \<notin> set (models self) \<longrightarrow>
      fit_prepare self a = Inl AssertionError \<and> fit c self a = Inl AssertionError)"
proof (intro conjI impI)
  assume h: "models self = [''model_A'', ''model_B'', ''model_C'']" "f_include a = NoNames"
    "f_exclude a = Names [''B'']" "fit c self a = Inr s'"
  from h(4) obtain inc excl s1 where f: "fit_prepare self a = Inr (inc, excl)"
    "fit_loop c a excl inc (reset self) = Inr s1" "s' = save s1"
    by (rule fit_cases)
  from fit_prepare_exclude_B[OF h(1-3) f(1)] have ie: "inc = [''model_A'', ''model_C'']"
    "excl = [''B'']" by auto
  from fit_loop_inv[OF f(2), of "[]"] ie f(3)
  show "fst ` set (eval_models s') = {''model_A'', ''model_C''}"
    and "fst ` set (iter_metrics s') = {''model_A'', ''model_C''}"
    by (auto simp: reset_def save_def)
next
  assume h: "f_exclude a = Names l" "n \<in> set l" "with_prefix n \<notin> set (models self)"
  from fit_prepare_unknown_exclude[OF h]
  show "fit_prepare self a = Inl AssertionError" and "fit c self a = Inl AssertionError"
    by (simp_all add: fit_def)
qed

lemma fit_exclude_B_example:
  "executed (fit example_collaborators example_experiment (dry_run_args [''B'']))
     = Some [''model_A'', ''model_C'']"
  by (simp add: executed_def example_defs fit_defs dry_run_args_def)

lemma fit_exclude_unknown_example:
  "fit example_collaborators example_experiment (dry_run_args [''B'', ''Z''])
     = Inl AssertionError"
  by (simp add: example_defs fit_defs dry_run_args_def)

lemma fit_exclude_case_B_example:
  "executed (fit example_collaborators case_B_experiment (dry_run_args [''B'']))
     = Some [''model_A'', ''model_C'', ''model_B'']"
  by (simp add: executed_def example_defs fit_defs dry_run_args_def)

lemma fit_exclude_model_B_example:
  "executed (fit example_collaborators case_B_experiment (dry_run_args [''model_B'']))
     = Some [''model_A'', ''model_C'']"
  by (simp add: executed_def example_defs fit_defs dry_run_args_def)

text \<open>
  C4 at an experiment with the builder methods A, B and C and a case named B, so that
  the list of models holds \<^verbatim>\<open>model_B\<close> twice: with \<^verbatim>\<open>exclude=['B']\<close> the call of
  \<^verbatim>\<open>fit\<close> returns and has run A, C and B. \<^verbatim>\<open>consider_exclude\<close> removes one
  occurrence of \<^verbatim>\<open>model_B\<close> from the included list, and the test of the loop,
  \<^verbatim>\<open>model_type not in exclude\<close>, compares the name with its prefix to the list as
  the caller wrote it. With \<^verbatim>\<open>exclude=['model_B']\<close> that test skips the model, and
  with the model B once in the list both ways of writing the name exclude it.
\<close>

theorem exclude_misses_repeated_model:
  "models case_B_experiment = [''model_A'', ''model_B'', ''model_C'', ''model_B'']
   \<and> set (models case_B_experiment) = {''model_A'', ''model_B'', ''model_C''}
   \<and> executed (fit example_collaborators case_B_experiment (dry_run_args [''B'']))
     = Some [''model_A'', ''model_C'', ''model_B'']
   \<and> executed (fit example_collaborators case_B_experiment (dry_run_args [''model_B'']))
     = Some [''model_A'', ''model_C'']
   \<and> executed (fit example_collaborators example_experiment (dry_run_args [''B'']))
     = Some [''model_A'', ''model_C'']"
proof -
  have m: "models case_B_experiment = [''model_A'', ''model_B'', ''model_C'', ''model_B'']"
    by (simp add: case_B_experiment_def Experiments_init_def with_prefix_def)
  then have "set (models case_B_experiment) = {''model_A'', ''model_B'', ''model_C''}"
    by auto
  with m show ?thesis
    by (simp only: fit_exclude_case_B_example fit_exclude_model_B_example
        fit_exclude_B_example simp_thms)
qed








end
